theory Spec2Isabelle
  imports Complex_Main
begin

section \<open>Go values\<close>

text \<open>
  Go's \<^verbatim>\<open>int\<close> is a 64-bit two's complement integer here. It is modelled as an
  \<^typ>\<open>int\<close> whose arithmetic is wrapped by \<open>wrap64\<close> wherever the source adds or
  subtracts values that are not bounded by the surrounding code.

  A \<^verbatim>\<open>float64\<close> is modelled as an exact rational. Every multiplier of the type
  chart (0, 0.5, 1, 2) is a binary fraction, so the products and differences formed by
  \<^verbatim>\<open>calculateSpecialDamage\<close> are computed without rounding as long as the statistics
  stay below \<open>2 ^ 51\<close> in magnitude; beyond that the model says nothing about the
  IEEE result.

  A run-time panic of the source is a value of type \<open>panic\<close>; a function that can
  panic returns \<open>panic + 'a\<close>.

  What the source writes to connections, to the log or to files is not modelled: each
  function is the effect of its statements, in program order, on the data it shares
  with the others.

  A \<^verbatim>\<open>sync.Mutex\<close> is not re-entrant: a goroutine that locks a mutex it already holds
  waits for ever, since nobody else unlocks it. A function that locks mutexes is run
  with the set \<open>held\<close> of the mutexes its goroutine holds; \<open>lock\<close> on a member of that
  set ends the run with \<open>Blocks s\<close>, where \<open>s\<close> is the shared state at that moment,
  and a run that comes back ends with \<open>Returns s\<close> (its deferred unlocks done). A
  mutex held by another goroutine is handed over in time and does not show in one
  call; a world left behind by \<open>Blocks\<close> is one whose mutexes stay held, and no
  further operation is run on it.
\<close>

type_synonym float64 = rat

datatype panic = NilDereference | IndexOutOfRange | DivideByZero | IntnArgument

datatype mutex = PlayerMutex nat | WorldMutex | ClientMutex nat | PokeworldMutex

datatype 'a run = Returns 'a | Blocks 'a

primrec stateOf :: "'a run \<Rightarrow> 'a" where
  "stateOf (Returns s) = s"
| "stateOf (Blocks s) = s"

definition lock ::
  "mutex \<Rightarrow> mutex set \<Rightarrow> 's \<Rightarrow> (mutex set \<Rightarrow> panic + 's run) \<Rightarrow> panic + 's run" where
  "lock m held s continue = (if m \<in> held then Inr (Blocks s) else continue (insert m held))"

definition unlock :: "mutex \<Rightarrow> mutex set \<Rightarrow> mutex set" where
  "unlock m held = held - {m}"

definition wrap64 :: "int \<Rightarrow> int" where
  "wrap64 n = (n + 2 ^ 63) mod 2 ^ 64 - 2 ^ 63"

definition is_int64 :: "int \<Rightarrow> bool" where
  "is_int64 n \<longleftrightarrow> - (2 ^ 63) \<le> n \<and> n < 2 ^ 63"

text \<open>The conversion \<^verbatim>\<open>int(f)\<close> of a float: the fraction is discarded (truncation
  towards zero).\<close>

definition go_int :: "float64 \<Rightarrow> int" where
  "go_int f = (if f < 0 then \<lceil>f\<rceil> else \<lfloor>f\<rfloor>)"

section \<open>Data model (server.go)\<close>

text \<open>\<^verbatim>\<open>type Pokemon struct\<close>. The \<^verbatim>\<open>Owner *Client\<close> pointer is the number of the
  owning connection, \<open>None\<close> for nil.\<close>

record Pokemon =
  Name :: string
  Type :: "string list"
  HP :: int
  BaseExp :: int
  Attack :: int
  Defense :: int
  Speed :: int
  SpecialAttack :: int
  SpecialDefense :: int
  Level :: int
  AccumExp :: int
  EV :: float64
  Owner :: "nat option"

text \<open>The struct literal of \<^verbatim>\<open>fetchPokemonData\<close>: the entry as the catalogue stores
  it, with level 1, no experience and an EV of 0.5.\<close>

definition newPokemon ::
  "string \<Rightarrow> string list \<Rightarrow> int \<Rightarrow> int \<Rightarrow> int \<Rightarrow> int \<Rightarrow> int \<Rightarrow> int \<Rightarrow> int \<Rightarrow> Pokemon" where
  "newPokemon name types baseExp hp attack defense speed spAttack spDefense =
     \<lparr>Name = name, Type = types, HP = hp, BaseExp = baseExp, Attack = attack,
      Defense = defense, Speed = speed, SpecialAttack = spAttack,
      SpecialDefense = spDefense, Level = 1, AccumExp = 0, EV = 1 / 2, Owner = None\<rparr>"

section \<open>Type chart and damage (server.go, Pokebat)\<close>

definition typeChart :: "string \<rightharpoonup> (string \<rightharpoonup> float64)" where
  "typeChart = map_of [
    (''Normal'', map_of [(''Rock'', 1 / 2), (''Ghost'', 0), (''Steel'', 1 / 2)]),
    (''Fire'', map_of [(''Fire'', 1 / 2), (''Water'', 1 / 2), (''Grass'', 2), (''Ice'', 2),
        (''Bug'', 2), (''Rock'', 1 / 2), (''Dragon'', 1 / 2), (''Steel'', 2)]),
    (''Water'', map_of [(''Fire'', 2), (''Water'', 1 / 2), (''Grass'', 1 / 2), (''Ground'', 2),
        (''Rock'', 2), (''Dragon'', 1 / 2)]),
    (''Electric'', map_of [(''Water'', 2), (''Electric'', 1 / 2), (''Grass'', 1 / 2),
        (''Ground'', 0), (''Flying'', 2), (''Dragon'', 1 / 2)]),
    (''Grass'', map_of [(''Fire'', 1 / 2), (''Water'', 2), (''Grass'', 1 / 2), (''Poison'', 1 / 2),
        (''Ground'', 2), (''Flying'', 1 / 2), (''Bug'', 1 / 2), (''Rock'', 2),
        (''Dragon'', 1 / 2), (''Steel'', 1 / 2)]),
    (''Ice'', map_of [(''Fire'', 1 / 2), (''Water'', 1 / 2), (''Grass'', 2), (''Ice'', 1 / 2),
        (''Ground'', 2), (''Flying'', 2), (''Dragon'', 2), (''Steel'', 1 / 2)]),
    (''Fighting'', map_of [(''Normal'', 2), (''Ice'', 2), (''Poison'', 1 / 2), (''Flying'', 1 / 2),
        (''Psychic'', 1 / 2), (''Bug'', 1 / 2), (''Rock'', 2), (''Ghost'', 0),
        (''Dark'', 2), (''Steel'', 2), (''Fairy'', 1 / 2)]),
    (''Poison'', map_of [(''Grass'', 2), (''Poison'', 1 / 2), (''Ground'', 1 / 2), (''Rock'', 1 / 2),
        (''Ghost'', 1 / 2), (''Steel'', 0), (''Fairy'', 2)]),
    (''Ground'', map_of [(''Fire'', 2), (''Electric'', 2), (''Grass'', 1 / 2), (''Poison'', 2),
        (''Flying'', 0), (''Bug'', 1 / 2), (''Rock'', 2), (''Steel'', 2)]),
    (''Flying'', map_of [(''Electric'', 1 / 2), (''Grass'', 2), (''Fighting'', 2), (''Bug'', 2),
        (''Rock'', 1 / 2), (''Steel'', 1 / 2)]),
    (''Psychic'', map_of [(''Fighting'', 2), (''Poison'', 2), (''Psychic'', 1 / 2), (''Dark'', 0),
        (''Steel'', 1 / 2)]),
    (''Bug'', map_of [(''Fire'', 1 / 2), (''Grass'', 2), (''Fighting'', 1 / 2), (''Poison'', 1 / 2),
        (''Flying'', 1 / 2), (''Psychic'', 2), (''Ghost'', 1 / 2), (''Dark'', 2),
        (''Steel'', 1 / 2), (''Fairy'', 1 / 2)]),
    (''Rock'', map_of [(''Fire'', 2), (''Ice'', 2), (''Fighting'', 1 / 2), (''Ground'', 1 / 2),
        (''Flying'', 2), (''Bug'', 2), (''Steel'', 1 / 2)]),
    (''Ghost'', map_of [(''Normal'', 0), (''Psychic'', 2), (''Ghost'', 2), (''Dark'', 1 / 2)]),
    (''Dragon'', map_of [(''Dragon'', 2), (''Steel'', 1 / 2), (''Fairy'', 0)]),
    (''Dark'', map_of [(''Fighting'', 1 / 2), (''Psychic'', 2), (''Ghost'', 2), (''Dark'', 1 / 2),
        (''Fairy'', 1 / 2)]),
    (''Steel'', map_of [(''Fire'', 1 / 2), (''Water'', 1 / 2), (''Electric'', 1 / 2), (''Ice'', 2),
        (''Rock'', 2), (''Steel'', 1 / 2), (''Fairy'', 2)]),
    (''Fairy'', map_of [(''Fire'', 1 / 2), (''Poison'', 1 / 2), (''Fighting'', 2), (''Dragon'', 2),
        (''Dark'', 2), (''Steel'', 1 / 2)])]"

definition calculateTypeEffectiveness :: "string \<Rightarrow> string \<Rightarrow> float64" where
  "calculateTypeEffectiveness attackerType defenderType =
     (case typeChart attackerType of
        Some defenderTypes \<Rightarrow>
          (case defenderTypes defenderType of
             Some multiplier \<Rightarrow> multiplier
           | None \<Rightarrow> 1)
      | None \<Rightarrow> 1)"

text \<open>\<^verbatim>\<open>calculateNormalDamage\<close>. A \<^verbatim>\<open>*Pokemon\<close> argument is \<open>None\<close> for nil and
  \<open>Some p\<close> for a pointer to the value \<open>p\<close>; reading a field through nil panics.\<close>

definition deref :: "'a option \<Rightarrow> panic + 'a" where
  "deref p = (case p of None \<Rightarrow> Inl NilDereference | Some v \<Rightarrow> Inr v)"

definition calculateNormalDamage :: "Pokemon option \<Rightarrow> Pokemon option \<Rightarrow> panic + int" where
  "calculateNormalDamage attacker defender =
     (if attacker = None \<or> defender = None then Inr 0
      else case deref attacker of Inl e \<Rightarrow> Inl e | Inr a \<Rightarrow>
        (case deref defender of Inl e \<Rightarrow> Inl e | Inr d \<Rightarrow>
           (let damage = wrap64 (Attack a - Defense d)
            in Inr (if damage < 0 then 0 else damage))))"

text \<open>The two nested \<^verbatim>\<open>range\<close> loops of \<^verbatim>\<open>calculateSpecialDamage\<close>, with the
  running \<^verbatim>\<open>maxMultiplier\<close> as accumulator; the source starts it at 1.0. The
  arithmetic after the loops is done on exact rationals: the value of the model is
  the value of the Go function for statistics below \<open>2 ^ 51\<close> in magnitude
  (\<open>floatExact\<close> below), and statements about that value are made for concrete
  statistics in this range or under that hypothesis.\<close>

fun defenderLoop :: "string \<Rightarrow> string list \<Rightarrow> float64 \<Rightarrow> float64" where
  "defenderLoop attackerType [] maxMult = maxMult"
| "defenderLoop attackerType (defenderType # rest) maxMult =
     (let multiplier = calculateTypeEffectiveness attackerType defenderType
      in defenderLoop attackerType rest (if multiplier > maxMult then multiplier else maxMult))"

fun attackerLoop :: "string list \<Rightarrow> string list \<Rightarrow> float64 \<Rightarrow> float64" where
  "attackerLoop [] defenderTypes maxMult = maxMult"
| "attackerLoop (attackerType # rest) defenderTypes maxMult =
     attackerLoop rest defenderTypes (defenderLoop attackerType defenderTypes maxMult)"

definition maxMultiplier :: "Pokemon \<Rightarrow> Pokemon \<Rightarrow> float64" where
  "maxMultiplier attacker defender = attackerLoop (Type attacker) (Type defender) 1"

definition calculateSpecialDamage :: "Pokemon option \<Rightarrow> Pokemon option \<Rightarrow> panic + int" where
  "calculateSpecialDamage attacker defender =
     (case deref attacker of Inl e \<Rightarrow> Inl e | Inr a \<Rightarrow>
        (case deref defender of Inl e \<Rightarrow> Inl e | Inr d \<Rightarrow>
           (let damage = go_int (of_int (SpecialAttack a) * maxMultiplier a d
                                   - of_int (SpecialDefense d))
            in Inr (if damage < 0 then 0 else damage))))"

text \<open>The statistics for which the float arithmetic of \<^verbatim>\<open>calculateSpecialDamage\<close> is
  exact and its result fits an \<^verbatim>\<open>int\<close>; only there is the value of the model the value
  of the Go function.\<close>

definition floatExact :: "Pokemon \<Rightarrow> Pokemon \<Rightarrow> bool" where
  "floatExact attacker defender \<longleftrightarrow>
     \<bar>SpecialAttack attacker\<bar> \<le> 2 ^ 51 \<and> \<bar>SpecialDefense defender\<bar> \<le> 2 ^ 51"

text \<open>The effectiveness rule as the specification words it: the maximum multiplier over
  the cross product of attacker types and defender types, each pair looked up with
  \<open>calculateTypeEffectiveness\<close> (so an absent pair counts as 1). It is the yardstick the
  loop of \<^verbatim>\<open>calculateSpecialDamage\<close> is compared with, not a translation of code.\<close>

definition maxOverCrossProduct :: "string list \<Rightarrow> string list \<Rightarrow> float64" where
  "maxOverCrossProduct attackerTypes defenderTypes =
     Max (set [calculateTypeEffectiveness a d. a \<leftarrow> attackerTypes, d \<leftarrow> defenderTypes])"

text \<open>Catalogue entries used as concrete inputs (base statistics of the catalogue's
  source; type names capitalised as the type chart has them).\<close>

definition charmander :: Pokemon where
  "charmander = newPokemon ''charmander'' [''Fire''] 62 39 52 43 65 60 50"

definition squirtle :: Pokemon where
  "squirtle = newPokemon ''squirtle'' [''Water''] 63 44 48 65 43 50 64"

definition psyduck :: Pokemon where
  "psyduck = newPokemon ''psyduck'' [''Water''] 64 50 52 48 55 65 50"

definition bulbasaur :: Pokemon where
  "bulbasaur = newPokemon ''bulbasaur'' [''Grass'', ''Poison''] 64 45 49 49 45 65 65"

definition machamp :: Pokemon where
  "machamp = newPokemon ''machamp'' [''Fighting''] 253 90 130 80 55 65 85"

definition abra :: Pokemon where
  "abra = newPokemon ''abra'' [''Psychic''] 62 25 20 15 90 105 55"

section \<open>Movement on the player grid (server.go, handlePlayerMovement)\<close>

text \<open>\<^verbatim>\<open>type Player struct\<close> of server.go; \<^verbatim>\<open>Pokemons\<close> is a \<^verbatim>\<open>map[int]Pokemon\<close>.\<close>

record Player =
  ID :: int
  X :: int
  Y :: int
  Pokemons :: "int \<rightharpoonup> Pokemon"

text \<open>The global \<^verbatim>\<open>world [][]*Player\<close>: a square array of \<open>worldLen\<close> rows of player
  pointers (\<^verbatim>\<open>len(world)\<close> is used for both coordinates). A \<^verbatim>\<open>*Player\<close> is a key of
  \<open>heap\<close>, which holds the player objects.\<close>

record World =
  world :: "int \<times> int \<Rightarrow> nat option"
  worldLen :: int
  heap :: "nat \<rightharpoonup> Player"

text \<open>Go's \<^verbatim>\<open>%\<close>: the remainder has the sign of the dividend. Division by zero panics
  and is tested where the operator is used.\<close>

definition go_rem :: "int \<Rightarrow> int \<Rightarrow> int" where
  "go_rem a b = sgn a * (\<bar>a\<bar> mod \<bar>b\<bar>)"

definition inWorld :: "World \<Rightarrow> int \<Rightarrow> int \<Rightarrow> bool" where
  "inWorld st x y \<longleftrightarrow> 0 \<le> x \<and> x < worldLen st \<and> 0 \<le> y \<and> y < worldLen st"

text \<open>\<^verbatim>\<open>handleEncounter(player, pokemon)\<close>: both arguments are player pointers; \<open>held\<close>
  are the mutexes the calling goroutine holds. The function locks the player's mutex
  and then \<^verbatim>\<open>worldMutex\<close>, and unlocks both when it returns. Writing the player's file
  (\<^verbatim>\<open>saveData\<close>) is left out.\<close>

definition handleEncounter :: "mutex set \<Rightarrow> nat \<Rightarrow> nat \<Rightarrow> World \<Rightarrow> panic + World run" where
  "handleEncounter held player pokemon st =
     (case heap st player of
        None \<Rightarrow> Inl NilDereference
      | Some pl \<Rightarrow>
          lock (PlayerMutex player) held st (\<lambda>held1.
          lock WorldMutex held1 st (\<lambda>held2.
            if card (dom (Pokemons pl)) < 200 then
              (case heap st pokemon of
                 None \<Rightarrow> Inl NilDereference
               | Some pk \<Rightarrow>
                   if \<not> inWorld st (Player.X pl) (Player.Y pl) then Inl IndexOutOfRange
                   else Inr (Returns
                          (st\<lparr>heap := (heap st)(player \<mapsto> pl\<lparr>Pokemons := Pokemons pl ++ Pokemons pk\<rparr>),
                              world := (world st)((Player.X pl, Player.Y pl) := None)\<rparr>)))
            else Inr (Returns st))))"

text \<open>\<^verbatim>\<open>handlePlayerMovement(player, direction)\<close>, called by a goroutine that holds no
  mutex. It locks the player's mutex until it returns, assigns the new coordinate,
  holds \<^verbatim>\<open>worldMutex\<close> for the test and the update of the world, and then, for a player
  who owns a Pokemon, calls \<^verbatim>\<open>handleEncounter(player, pokemon)\<close> with the pointer it
  has just read back from its own cell, the player's mutex still held. The
  coordinates stay far below \<open>2 ^ 62\<close>, so the additions are not wrapped.\<close>

definition handlePlayerMovement :: "nat \<Rightarrow> string \<Rightarrow> World \<Rightarrow> panic + World run" where
  "handlePlayerMovement player direction st =
     (case heap st player of
        None \<Rightarrow> Inl NilDereference
      | Some pl \<Rightarrow>
          lock (PlayerMutex player) {} st (\<lambda>held1.
          let worldSize = worldLen st;
              originalX = Player.X pl;
              originalY = Player.Y pl
          in if direction \<notin> {''up'', ''down'', ''left'', ''right''} then Inr (Returns st)
             else if worldSize = 0 then Inl DivideByZero
             else
               let pl1 =
                     (if direction = ''up'' then
                        pl\<lparr>Player.Y := go_rem (Player.Y pl - 1 + worldSize) worldSize\<rparr>
                      else if direction = ''down'' then
                        pl\<lparr>Player.Y := go_rem (Player.Y pl + 1) worldSize\<rparr>
                      else if direction = ''left'' then
                        pl\<lparr>Player.X := go_rem (Player.X pl - 1 + worldSize) worldSize\<rparr>
                      else pl\<lparr>Player.X := go_rem (Player.X pl + 1) worldSize\<rparr>)
               in lock WorldMutex held1 (st\<lparr>heap := (heap st)(player \<mapsto> pl1)\<rparr>) (\<lambda>held2.
                  if \<not> inWorld st (Player.X pl1) (Player.Y pl1) then Inl IndexOutOfRange
                  else if (case world st (Player.X pl1, Player.Y pl1) of
                             None \<Rightarrow> False
                           | Some q \<Rightarrow>
                               (case heap st q of
                                  None \<Rightarrow> False
                                | Some occupant \<Rightarrow> dom (Pokemons occupant) = {}))
                  then Inr (Returns st)
                  else if \<not> inWorld st originalX originalY then Inl IndexOutOfRange
                  else
                    let st1 = st\<lparr>world := ((world st)((originalX, originalY) := None))
                                            ((Player.X pl1, Player.Y pl1) \<mapsto> player),
                                  heap := (heap st)(player \<mapsto> pl1)\<rparr>
                    in if dom (Pokemons pl1) \<noteq> {}
                       then handleEncounter (unlock WorldMutex held2) player player st1
                       else Inr (Returns st1))))"

text \<open>The move as the specification words it: the new coordinate is
  \<open>(old \<plusminus> 1 + size) mod size\<close>, the other coordinate stays. It is what
  \<^verbatim>\<open>handlePlayerMovement\<close> and \<^verbatim>\<open>handlePlayer\<close> are compared with.\<close>

definition destination :: "int \<Rightarrow> string \<Rightarrow> int \<times> int \<Rightarrow> int \<times> int" where
  "destination n direction pos =
     (case pos of (x, y) \<Rightarrow>
        if direction = ''up'' then (x, (y - 1 + n) mod n)
        else if direction = ''down'' then (x, (y + 1 + n) mod n)
        else if direction = ''left'' then ((x - 1 + n) mod n, y)
        else if direction = ''right'' then ((x + 1 + n) mod n, y)
        else (x, y))"

text \<open>The test of \<^verbatim>\<open>handlePlayerMovement\<close> on the destination cell: it holds a player
  who owns no Pokemon.\<close>

definition blockedAt :: "World \<Rightarrow> int \<times> int \<Rightarrow> bool" where
  "blockedAt st pos =
     (case world st pos of
        None \<Rightarrow> False
      | Some q \<Rightarrow> (case heap st q of None \<Rightarrow> False | Some occupant \<Rightarrow> dom (Pokemons occupant) = {}))"

definition position :: "World \<Rightarrow> nat \<Rightarrow> (int \<times> int) option" where
  "position st p = map_option (\<lambda>pl. (Player.X pl, Player.Y pl)) (heap st p)"

text \<open>A world used as concrete input: three rows, and the two players that
  \<^verbatim>\<open>addPlayer(0, 0)\<close> and \<^verbatim>\<open>addPlayer(0, 2)\<close> create (they own no Pokemon).\<close>

definition exampleWorld :: World where
  "exampleWorld =
     \<lparr>world = (\<lambda>_. None)((0, 0) \<mapsto> 1, (0, 2) \<mapsto> 2),
      worldLen = 3,
      heap = [1 \<mapsto> \<lparr>ID = 1, Player.X = 0, Player.Y = 0, Pokemons = Map.empty\<rparr>,
              2 \<mapsto> \<lparr>ID = 2, Player.X = 0, Player.Y = 2, Pokemons = Map.empty\<rparr>]\<rparr>"


section \<open>The battle exchange (server.go, handleConnection)\<close>

text \<open>
  Every \<^verbatim>\<open>*Pokemon\<close> the server holds is the address of an element of the one
  \<^verbatim>\<open>pokedex\<close> slice (\<^verbatim>\<open>&pokedex[choice-1]\<close>, \<^verbatim>\<open>&pw.pokedex[pokemonIndex]\<close>), so a
  pointer is the index of that element and the slice is the store the pointers are
  read and written through. Two pointers are equal exactly when the indices are.
\<close>

type_synonym pokemon_ptr = nat
type_synonym conn = nat

definition load :: "Pokemon list \<Rightarrow> pokemon_ptr \<Rightarrow> Pokemon option" where
  "load pokedex p = (if p < length pokedex then Some (pokedex ! p) else None)"

text \<open>\<^verbatim>\<open>type Client struct\<close>; the connection and the readers are left out, the time
  \<^verbatim>\<open>AutoUntil\<close> is a number.\<close>

record Client =
  team :: "pokemon_ptr list"
  isActive :: bool
  activePokemon :: "pokemon_ptr option"
  X :: int
  Y :: int
  AutoMode :: bool
  AutoUntil :: int

text \<open>\<^verbatim>\<open>map[net.Conn]*Client\<close>: each connection is bound to one client object. The
  order of the list stands for the order in which a \<^verbatim>\<open>range\<close> over the map visits it
  (Go leaves that order open). Writing a field of a client changes the object the map
  points to.\<close>

type_synonym client_map = "(conn \<times> Client) list"

definition updateClient :: "conn \<Rightarrow> Client \<Rightarrow> client_map \<Rightarrow> client_map" where
  "updateClient c new clients = map (\<lambda>(k, v). if k = c then (k, new) else (k, v)) clients"

text \<open>\<^verbatim>\<open>for otherConn, otherClient := range clients { if otherConn != conn { ...; break } }\<close>\<close>

definition findOpponent :: "conn \<Rightarrow> client_map \<Rightarrow> (conn \<times> Client) option" where
  "findOpponent c clients = find (\<lambda>(k, v). k \<noteq> c) clients"

text \<open>The team selection loop: one line of input per round, \<open>None\<close> when \<^verbatim>\<open>Atoi\<close>
  fails; an invalid choice repeats the round, the end of the input ends the handler.
  \<^verbatim>\<open>handleConnection\<close> binds its client in the map before the loop, so the branch for
  an unbound connection is never taken by the source.\<close>

fun chooseTeam ::
  "conn \<Rightarrow> nat \<Rightarrow> int option list \<Rightarrow> Pokemon list \<times> client_map \<Rightarrow> Pokemon list \<times> client_map" where
  "chooseTeam c i [] st = st"
| "chooseTeam c i (input # rest) (pokedex, clients) =
     (if i < 3 then
        (case input of
           None \<Rightarrow> chooseTeam c i rest (pokedex, clients)
         | Some choice \<Rightarrow>
             if choice < 1 \<or> choice > int (length pokedex)
             then chooseTeam c i rest (pokedex, clients)
             else (case map_of clients c of
                     None \<Rightarrow> (pokedex, clients)
                   | Some client \<Rightarrow>
                       chooseTeam c (Suc i) rest
                         (pokedex,
                          updateClient c (client\<lparr>team := team client @ [nat (choice - 1)]\<rparr>) clients)))
      else (pokedex, clients))"

text \<open>\<^verbatim>\<open>var damage int; switch attackChoice { case 1: ...; case 2: ... }\<close>\<close>

definition attackDamage :: "int \<Rightarrow> Pokemon option \<Rightarrow> Pokemon option \<Rightarrow> panic + int" where
  "attackDamage attackChoice attacker defender =
     (if attackChoice = 1 then calculateNormalDamage attacker defender
      else if attackChoice = 2 then calculateSpecialDamage attacker defender
      else Inr 0)"

datatype outcome =
    Waiting
  | InvalidAttackChoice
  | OpponentHasNoPokemon
  | TurnPassed "Pokemon list \<times> client_map"
  | BattleWon "Pokemon list \<times> client_map"

text \<open>One pass through the \<^verbatim>\<open>for\<close> loop of \<^verbatim>\<open>handleConnection\<close> after the teams are
  chosen. \<open>attackInput\<close> is the parsed attack number (\<open>None\<close> when \<^verbatim>\<open>Atoi\<close> fails). The
  first three outcomes leave the state as it was; \<open>BattleWon\<close> is the \<^verbatim>\<open>break\<close>.
  The pointers of a team are addresses of pokedex entries, so the test that they lie
  inside the pokedex never fails in the source; it keeps the model from reading
  outside the list.\<close>

definition attackTurn ::
  "conn \<Rightarrow> int option \<Rightarrow> Pokemon list \<times> client_map \<Rightarrow> panic + outcome" where
  "attackTurn c attackInput st =
     (case st of (pokedex, clients) \<Rightarrow>
      case map_of clients c of
        None \<Rightarrow> Inr Waiting
      | Some client \<Rightarrow>
         (case team client of
            [] \<Rightarrow> Inr Waiting
          | attacker # _ \<Rightarrow>
             if \<not> isActive client then Inr Waiting
             else case attackInput of
               None \<Rightarrow> Inr InvalidAttackChoice
             | Some attackChoice \<Rightarrow>
                if attackChoice < 1 \<or> attackChoice > 2 then Inr InvalidAttackChoice
                else case findOpponent c clients of
                  None \<Rightarrow> Inr OpponentHasNoPokemon
                | Some (otherConn, opponentClient) \<Rightarrow>
                   (case team opponentClient of
                      [] \<Rightarrow> Inr OpponentHasNoPokemon
                    | defender # others \<Rightarrow>
                       if \<not> (attacker < length pokedex \<and> defender < length pokedex)
                       then Inl NilDereference
                       else case attackDamage attackChoice (load pokedex attacker) (load pokedex defender) of
                         Inl e \<Rightarrow> Inl e
                       | Inr damage \<Rightarrow>
                          let pokedex' = pokedex[defender :=
                                 (pokedex ! defender)\<lparr>HP := wrap64 (HP (pokedex ! defender) - damage)\<rparr>];
                              fainted = (HP (pokedex' ! defender) \<le> 0);
                              opponentClient' =
                                (if fainted then opponentClient\<lparr>team := others\<rparr> else opponentClient);
                              clients' = updateClient otherConn opponentClient' clients
                          in if fainted \<and> others = [] then Inr (BattleWon (pokedex', clients'))
                             else Inr (TurnPassed (pokedex',
                                    updateClient otherConn (opponentClient'\<lparr>isActive := True\<rparr>)
                                      (updateClient c (client\<lparr>isActive := False\<rparr>) clients'))))))"

text \<open>The client object \<^verbatim>\<open>handleConnection\<close> creates: every field but the connection
  and the reader has its zero value.\<close>

definition newClient :: Client where
  "newClient = \<lparr>team = [], isActive = False, activePokemon = None, Client.X = 0, Client.Y = 0,
                 AutoMode = False, AutoUntil = 0\<rparr>"

text \<open>The election of the first actor in \<^verbatim>\<open>main\<close>: the lead with the strictly higher
  \<^verbatim>\<open>Speed\<close>, on a tie \<^verbatim>\<open>rand.Intn(2) == 0\<close> for the random number \<open>r\<close>.\<close>

definition activate :: "conn \<Rightarrow> client_map \<Rightarrow> client_map" where
  "activate c clients =
     (case map_of clients c of
        None \<Rightarrow> clients
      | Some client \<Rightarrow> updateClient c (client\<lparr>isActive := True\<rparr>) clients)"

definition electFirst ::
  "conn \<Rightarrow> conn \<Rightarrow> nat \<Rightarrow> Pokemon list \<times> client_map \<Rightarrow> panic + Pokemon list \<times> client_map" where
  "electFirst player1Conn player2Conn r st =
     (case st of (pokedex, clients) \<Rightarrow>
      case (map_of clients player1Conn, map_of clients player2Conn) of
        (Some client1, Some client2) \<Rightarrow>
          (case (team client1, team client2) of
             (p1 # _, p2 # _) \<Rightarrow>
               (case (load pokedex p1, load pokedex p2) of
                  (Some pokemon1, Some pokemon2) \<Rightarrow>
                    let player1Speed = Speed pokemon1; player2Speed = Speed pokemon2
                    in if player1Speed > player2Speed then Inr (pokedex, activate player1Conn clients)
                       else if player2Speed > player1Speed then Inr (pokedex, activate player2Conn clients)
                       else if r mod 2 = 0 then Inr (pokedex, activate player1Conn clients)
                       else Inr (pokedex, activate player2Conn clients)
                | _ \<Rightarrow> Inl NilDereference)
           | _ \<Rightarrow> Inl IndexOutOfRange)
      | _ \<Rightarrow> Inl NilDereference)"

text \<open>A battle used as concrete input: a pokedex of four entries; player 1 drafted
  entries 1, 1 and 4, player 2 entries 3, 2 and 2 (teams of pointers to the entries 0, 0, 3
  and 2, 1, 1), and player 1, whose lead is faster, moves first.\<close>

definition exampleBattle :: "Pokemon list \<times> client_map" where
  "exampleBattle =
     ([machamp, abra, squirtle, charmander],
      [(1, newClient\<lparr>team := [0, 0, 3], isActive := True\<rparr>), (2, newClient\<lparr>team := [2, 1, 1]\<rparr>)])"

text \<open>The registry after a hit on entry \<open>defender\<close> may differ from the one before only
  in that entry's \<^verbatim>\<open>HP\<close>.\<close>

definition onlyHP :: "pokemon_ptr \<Rightarrow> Pokemon list \<Rightarrow> Pokemon list \<Rightarrow> bool" where
  "onlyHP defender old new = (new = old[defender := (old ! defender)\<lparr>HP := HP (new ! defender)\<rparr>])"

section \<open>The world grid (Pokeworld and spawnPokemon of server.go, handlePlayer of its draft)\<close>

definition worldSizeX :: int where "worldSizeX = 1000"
definition worldSizeY :: int where "worldSizeY = 1000"
definition maxPokemonPerPlayer :: nat where "maxPokemonPerPlayer = 200"

text \<open>A timer made by \<^verbatim>\<open>time.AfterFunc\<close> for the despawn closure: the closure's captured
  \<^verbatim>\<open>x\<close>, \<^verbatim>\<open>y\<close> and \<^verbatim>\<open>pokemon\<close>, and whether the timer is still to fire. A
  \<^verbatim>\<open>*time.Timer\<close> is the position of the timer in the list of all timers made.\<close>

datatype timer_status = Pending | Stopped | Fired

record Timer =
  cx :: int
  cy :: int
  cpokemon :: pokemon_ptr
  status :: timer_status

text \<open>\<^verbatim>\<open>type Pokeworld struct\<close>. \<open>grid\<close> is the 1000 by 1000 array of \<^verbatim>\<open>*Pokemon\<close>
  (\<open>None\<close> is nil); \<open>timers\<close> holds the timers of the Go runtime. The configuration
  fields (sizes, rates, random generator) are not read by the functions modelled.\<close>

record Pokeworld =
  grid :: "int \<times> int \<Rightarrow> pokemon_ptr option"
  players :: client_map
  pokedex :: "Pokemon list"
  despawnTimers :: "pokemon_ptr \<rightharpoonup> nat"
  TotalPokemon :: int
  timers :: "Timer list"

text \<open>The random numbers one pass of the spawn loop draws: \<^verbatim>\<open>rand.Intn(n)\<close> is an
  arbitrary natural number reduced modulo \<open>n\<close>, \<^verbatim>\<open>rand.Float64()\<close> the fractional part
  of an arbitrary rational.\<close>

record Draw =
  dx :: nat
  dy :: nat
  dindex :: nat
  dlevel :: nat
  dev :: rat

text \<open>The body of the \<^verbatim>\<open>for\<close> loop of \<^verbatim>\<open>spawnPokemon\<close>. \<^verbatim>\<open>rand.Intn(0)\<close> panics, so
  an empty pokedex does.\<close>

definition spawnBody :: "Draw \<Rightarrow> Pokeworld \<Rightarrow> panic + Pokeworld" where
  "spawnBody r pw =
     (let x = int (dx r) mod worldSizeX; y = int (dy r) mod worldSizeY
      in if grid pw (x, y) = None then
           if pokedex pw = [] then Inl IntnArgument
           else
             let pokemonIndex = dindex r mod length (pokedex pw);
                 pokemon = pokemonIndex;
                 dex1 = (pokedex pw)[pokemon :=
                          (pokedex pw ! pokemon)\<lparr>Level := int (dlevel r mod 100) + 1\<rparr>];
                 dex2 = dex1[pokemon := (dex1 ! pokemon)\<lparr>EV := frac (dev r) * (1 / 2) + 1 / 2\<rparr>];
                 despawnTimer = length (timers pw)
             in Inr (pw\<lparr>pokedex := dex2,
                        grid := (grid pw)((x, y) \<mapsto> pokemon),
                        timers := timers pw @
                          [\<lparr>cx = x, cy = y, cpokemon = pokemon, status = Pending\<rparr>],
                        despawnTimers := (despawnTimers pw)(pokemon \<mapsto> despawnTimer)\<rparr>)
         else Inr pw)"

text \<open>\<^verbatim>\<open>for i := 0; i < numPokemon && pw.TotalPokemon < 50; i++\<close>: \<open>k\<close> counts the
  passes still allowed by \<^verbatim>\<open>i < numPokemon\<close>, \<open>rnd i\<close> are the draws of pass \<open>i\<close>.
  \<^verbatim>\<open>spawnPokemon\<close> locks the world's mutex once and unlocks it when it returns; its
  goroutine holds no other mutex, so the call never waits on itself and the lock does
  not show in the function.\<close>

fun spawnLoop :: "(nat \<Rightarrow> Draw) \<Rightarrow> nat \<Rightarrow> nat \<Rightarrow> Pokeworld \<Rightarrow> panic + Pokeworld" where
  "spawnLoop rnd i 0 pw = Inr pw"
| "spawnLoop rnd i (Suc k) pw =
     (if TotalPokemon pw < 50 then
        (case spawnBody (rnd i) pw of
           Inl e \<Rightarrow> Inl e
         | Inr pw' \<Rightarrow> spawnLoop rnd (Suc i) k pw')
      else Inr pw)"

definition spawnPokemon :: "int \<Rightarrow> (nat \<Rightarrow> Draw) \<Rightarrow> Pokeworld \<Rightarrow> panic + Pokeworld" where
  "spawnPokemon numPokemon rnd pw = spawnLoop rnd 0 (nat numPokemon) pw"

text \<open>The closure handed to \<^verbatim>\<open>time.AfterFunc\<close>, and the runtime running it when the
  despawn time of timer \<open>t\<close> has passed: a timer that was stopped, or has fired, does
  nothing. The closure, too, locks the world's mutex once, in a goroutine of its own.\<close>

definition despawnCallback :: "Timer \<Rightarrow> Pokeworld \<Rightarrow> Pokeworld" where
  "despawnCallback t pw =
     (if grid pw (cx t, cy t) = Some (cpokemon t) then
        pw\<lparr>grid := (grid pw)((cx t, cy t) := None),
           despawnTimers := (despawnTimers pw)(cpokemon t := None),
           TotalPokemon := wrap64 (TotalPokemon pw - 1)\<rparr>
      else pw)"

definition fireTimer :: "nat \<Rightarrow> Pokeworld \<Rightarrow> Pokeworld" where
  "fireTimer t pw =
     (if t < length (timers pw) \<and> status (timers pw ! t) = Pending then
        despawnCallback (timers pw ! t)
          (pw\<lparr>timers := (timers pw)[t := (timers pw ! t)\<lparr>status := Fired\<rparr>]\<rparr>)
      else pw)"

text \<open>\<^verbatim>\<open>despawnTimer.Stop()\<close>\<close>

definition stopTimer :: "nat \<Rightarrow> Timer list \<Rightarrow> Timer list" where
  "stopTimer t ts =
     (if t < length ts \<and> status (ts ! t) = Pending then ts[t := (ts ! t)\<lparr>status := Stopped\<rparr>]
      else ts)"

text \<open>The \<^verbatim>\<open>switch input\<close> of \<^verbatim>\<open>handlePlayer\<close>. The case \<^verbatim>\<open>"auto"\<close> is taken only when
  the whole line is \<^verbatim>\<open>auto\<close>; splitting that line at spaces gives one part, so the
  case changes nothing.\<close>

definition switchInput :: "string \<Rightarrow> Client \<Rightarrow> Client" where
  "switchInput input client =
     (if input = ''up'' then (if Y client > 0 then client\<lparr>Y := Y client - 1\<rparr> else client)
      else if input = ''down'' then
        (if Y client < worldSizeY - 1 then client\<lparr>Y := Y client + 1\<rparr> else client)
      else if input = ''left'' then (if X client > 0 then client\<lparr>X := X client - 1\<rparr> else client)
      else if input = ''right'' then
        (if X client < worldSizeX - 1 then client\<lparr>X := X client + 1\<rparr> else client)
      else client)"

text \<open>"Check for Pokemon Capture": the first capture block of \<^verbatim>\<open>handlePlayer\<close>.\<close>

definition capturePokemon :: "conn \<Rightarrow> Client \<Rightarrow> Pokeworld \<Rightarrow> Pokeworld" where
  "capturePokemon c client pw =
     (case grid pw (X client, Y client) of
        None \<Rightarrow> pw
      | Some pokemon \<Rightarrow>
          if length (team client) < maxPokemonPerPlayer then
            pw\<lparr>players := updateClient c (client\<lparr>team := team client @ [pokemon]\<rparr>) (players pw),
               grid := (grid pw)((X client, Y client) := None),
               TotalPokemon := wrap64 (TotalPokemon pw - 1),
               despawnTimers := (despawnTimers pw)(pokemon := None),
               timers := (case despawnTimers pw pokemon of
                            None \<Rightarrow> timers pw
                          | Some despawnTimer \<Rightarrow> stopTimer despawnTimer (timers pw))\<rparr>
          else pw)"



text \<open>One pass through the loop of \<^verbatim>\<open>handlePlayer\<close> for the line \<open>input\<close> read at time
  \<open>now\<close>, by a goroutine that holds no mutex. The pass locks the client and the world,
  runs the \<^verbatim>\<open>switch\<close>, and then locks the client and the world a second time, before
  the capture. Past that point: another player on the same cell starts
  \<^verbatim>\<open>handleBattle\<close>, whose first statements write \<^verbatim>\<open>Owner\<close> through the nil that the
  placeholder \<^verbatim>\<open>chooseActivePokemon\<close> returns, a nil dereference; a position outside
  the array would be an index panic; the pass ends by unlocking the world and the
  client.\<close>

definition inGrid :: "int \<Rightarrow> int \<Rightarrow> bool" where
  "inGrid x y \<longleftrightarrow> 0 \<le> x \<and> x < worldSizeX \<and> 0 \<le> y \<and> y < worldSizeY"


text \<open>Every entry of the registry \<open>new\<close> is the entry of \<open>old\<close> at the same place, up
  to its \<^verbatim>\<open>Level\<close> and \<^verbatim>\<open>EV\<close>.\<close>

definition onlyLevelEV :: "Pokemon list \<Rightarrow> Pokemon list \<Rightarrow> bool" where
  "onlyLevelEV old new = list_all2 (\<lambda>p q. q = p\<lparr>Level := Level q, EV := EV q\<rparr>) old new"

text \<open>A world used as concrete input: an empty grid over a pokedex of two entries, and
  the draws of one pass of the spawn loop (cell (3, 4), entry 0, level 38).\<close>

definition world0 :: Pokeworld where
  "world0 = \<lparr>grid = (\<lambda>_. None), players = [], pokedex = [charmander, squirtle],
             despawnTimers = Map.empty, TotalPokemon = 0, timers = []\<rparr>"

definition draw0 :: Draw where
  "draw0 = \<lparr>dx = 3, dy = 4, dindex = 0, dlevel = 37, dev = 1 / 2\<rparr>"

text \<open>The states the two concrete inputs lead to: \<open>world0\<close> after one pass of the spawn
  loop with \<open>draw0\<close>, and \<open>exampleBattle\<close> after player 1's normal attack
  (\<open>130 - 65 = 65\<close> damage on the 44 HP of entry 2).\<close>

definition world1 :: Pokeworld where
  "world1 = \<lparr>grid = (\<lambda>_. None)((3, 4) \<mapsto> 0), players = [],
             pokedex = [charmander\<lparr>Level := 38, EV := 3 / 4\<rparr>, squirtle],
             despawnTimers = [0 \<mapsto> 0], TotalPokemon = 0,
             timers = [\<lparr>cx = 3, cy = 4, cpokemon = 0, status = Pending\<rparr>]\<rparr>"

definition exampleBattle1 :: "Pokemon list \<times> client_map" where
  "exampleBattle1 =
     ([machamp, abra, squirtle\<lparr>HP := - 21\<rparr>, charmander],
      [(1, newClient\<lparr>team := [0, 0, 3], isActive := False\<rparr>),
       (2, newClient\<lparr>team := [1, 1], isActive := True\<rparr>)])"

text \<open>Running one operation after another; a panic ends the run.\<close>

definition thenDo :: "panic + 'a \<Rightarrow> ('a \<Rightarrow> panic + 'b) \<Rightarrow> panic + 'b" where
  "thenDo r f = (case r of Inl e \<Rightarrow> Inl e | Inr v \<Rightarrow> f v)"

text \<open>The cell a pass of the spawn loop draws.\<close>

definition cellOf :: "Draw \<Rightarrow> int \<times> int" where
  "cellOf r = (int (dx r) mod worldSizeX, int (dy r) mod worldSizeY)"

text \<open>Two spawn cycles as \<^verbatim>\<open>spawnPokemonLoop\<close> runs them (\<^verbatim>\<open>pw.spawnPokemon(50)\<close>), on
  the empty world: pass \<open>i\<close> of the first cycle draws the cell \<open>(i, 0)\<close>, pass \<open>i\<close> of
  the second the cell \<open>(i, 1)\<close>.\<close>

definition rowDraws :: "nat \<Rightarrow> nat \<Rightarrow> Draw" where
  "rowDraws row i = \<lparr>dx = i, dy = row, dindex = i, dlevel = i, dev = 0\<rparr>"

definition twoCycles :: "panic + Pokeworld" where
  "twoCycles = thenDo (spawnPokemon 50 (rowDraws 0) world0) (spawnPokemon 50 (rowDraws 1))"



section \<open>Properties of the damage model\<close>

lemma deref_Some: "deref (Some v) = Inr v"
  by (simp add: deref_def)

text \<open>
  C10: when the attacker or the defender is nil, \<^verbatim>\<open>calculateNormalDamage\<close> returns 0;
  no field is read through the nil pointer (a read would be the panic
  \<open>Inl NilDereference\<close>).
\<close>

theorem calculateNormalDamage_nil:
  "attacker = None \<or> defender = None \<Longrightarrow> calculateNormalDamage attacker defender = Inr 0"
  by (simp add: calculateNormalDamage_def)

theorem calculateNormalDamage_nil_witness:
  "calculateNormalDamage None (Some (newPokemon ''pikachu'' [''Electric''] 112 35 55 40 90 50 50)) = Inr 0
   \<and> calculateNormalDamage (Some (newPokemon ''pikachu'' [''Electric''] 112 35 55 40 90 50 50)) None = Inr 0
   \<and> calculateNormalDamage None None = Inr 0"
  using calculateNormalDamage_nil [of None "Some (newPokemon ''pikachu'' [''Electric''] 112 35 55 40 90 50 50)"]
    calculateNormalDamage_nil [of "Some (newPokemon ''pikachu'' [''Electric''] 112 35 55 40 90 50 50)" None]
    calculateNormalDamage_nil [of None None]
  by simp

subsection \<open>The multiplier loop\<close>

lemma Max_insert_max:
  "finite A \<Longrightarrow> Max (insert (max x y) A) = Max (insert x (insert y A))"
  by (cases "A = {}") (simp_all add: max.assoc)

lemma Max_insert_Max:
  "finite A \<Longrightarrow> finite B \<Longrightarrow> Max (insert (Max (insert m A)) B) = Max (insert m (A \<union> B))"
proof (cases "B = {}")
  case True
  then show ?thesis by simp
next
  case False
  assume fin: "finite A" "finite B"
  have "Max (insert m A \<union> B) = max (Max (insert m A)) (Max B)"
    using fin False by (intro Max_Un) simp_all
  moreover have "Max (insert (Max (insert m A)) B) = max (Max (insert m A)) (Max B)"
    using fin(2) False by (rule Max_insert)
  ultimately show ?thesis by simp
qed

lemma defenderLoop_Max:
  "defenderLoop a ds m = Max (insert m (calculateTypeEffectiveness a ` set ds))"
proof (induction ds arbitrary: m)
  case Nil
  then show ?case by simp
next
  case (Cons d ds)
  have "(if m < calculateTypeEffectiveness a d then calculateTypeEffectiveness a d else m)
        = max m (calculateTypeEffectiveness a d)"
    by (simp add: max_def not_less)
  then show ?case using Cons by (simp add: Max_insert_max del: Max_insert)
qed

lemma attackerLoop_Max:
  "attackerLoop as ds m =
     Max (insert m (set [calculateTypeEffectiveness a d. a \<leftarrow> as, d \<leftarrow> ds]))"
proof (induction as arbitrary: m)
  case Nil
  then show ?case by simp
next
  case (Cons a as)
  let ?A = "calculateTypeEffectiveness a ` set ds"
  let ?B = "set [calculateTypeEffectiveness a d. a \<leftarrow> as, d \<leftarrow> ds]"
  have "attackerLoop (a # as) ds m = Max (insert (Max (insert m ?A)) ?B)"
    using Cons.IH by (simp only: attackerLoop.simps defenderLoop_Max)
  also have "\<dots> = Max (insert m (?A \<union> ?B))"
    by (rule Max_insert_Max) simp_all
  also have "?A \<union> ?B = set [calculateTypeEffectiveness a' d. a' \<leftarrow> a # as, d \<leftarrow> ds]"
    by simp
  finally show ?case .
qed

text \<open>What the loop computes: the maximum of 1 and all pair multipliers, so never less
  than the initial 1.0.\<close>

lemma maxMultiplier_Max:
  "maxMultiplier a d =
     Max (insert 1 (set [calculateTypeEffectiveness s t. s \<leftarrow> Type a, t \<leftarrow> Type d]))"
  by (simp only: maxMultiplier_def attackerLoop_Max)

lemma maxMultiplier_floor:
  assumes "Type a \<noteq> []" and "Type d \<noteq> []"
  shows "maxMultiplier a d = max 1 (maxOverCrossProduct (Type a) (Type d))"
proof -
  let ?S = "set [calculateTypeEffectiveness s t. s \<leftarrow> Type a, t \<leftarrow> Type d]"
  have "?S \<noteq> {}" using assms by (cases "Type a"; cases "Type d") auto
  then have "Max (insert 1 ?S) = max 1 (Max ?S)"
    by (intro Max_insert) simp_all
  then show ?thesis by (simp only: maxMultiplier_Max maxOverCrossProduct_def)
qed

lemma typeChart_values:
  "typeChart a = Some m \<Longrightarrow> m d = Some v \<Longrightarrow> v \<in> {0, 1 / 2, 2}"
  by (auto simp: typeChart_def split: if_splits)

lemma calculateTypeEffectiveness_values:
  "calculateTypeEffectiveness a d \<in> {0, 1 / 2, 1, 2}"
  using typeChart_values[of a _ d]
  by (auto simp: calculateTypeEffectiveness_def split: option.splits)

lemma defenderLoop_12: "m \<in> {1, 2} \<Longrightarrow> defenderLoop a ds m \<in> {1, 2}"
proof (induction ds arbitrary: m)
  case Nil
  then show ?case by simp
next
  case (Cons d ds)
  from calculateTypeEffectiveness_values[of a d] Cons.prems
  have "(if m < calculateTypeEffectiveness a d then calculateTypeEffectiveness a d else m) \<in> {1, 2}"
    by auto
  then show ?case using Cons.IH by (simp add: Let_def)
qed

lemma attackerLoop_12: "m \<in> {1, 2} \<Longrightarrow> attackerLoop as ds m \<in> {1, 2}"
proof (induction as arbitrary: m)
  case Nil
  then show ?case by simp
next
  case (Cons a as)
  have "defenderLoop a ds m \<in> {1, 2}"
    using Cons.prems by (rule defenderLoop_12)
  then have "attackerLoop as ds (defenderLoop a ds m) \<in> {1, 2}"
    by (rule Cons.IH)
  then show ?case by simp
qed

lemma maxMultiplier_12: "maxMultiplier a d = 1 \<or> maxMultiplier a d = 2"
  using attackerLoop_12[of 1 "Type a" "Type d"] by (simp add: maxMultiplier_def)

lemma go_int_of_int: "go_int (of_int n) = n"
  by (simp add: go_int_def)

lemma special_value_integral:
  "of_int (SpecialAttack a) * maxMultiplier a d - of_int (SpecialDefense d)
     = (of_int (SpecialAttack a * (if maxMultiplier a d = 1 then 1 else 2) - SpecialDefense d) :: rat)"
  using maxMultiplier_12[of a d] by auto

lemma wrap64_id: "is_int64 n \<Longrightarrow> wrap64 n = n"
  by (simp add: wrap64_def is_int64_def mod_pos_pos_trivial)

text \<open>
  C1 (evaluation of the code at the failing input): for a Fire attacker and a Water
  defender the only pair resolves to 0.5, which is the maximum over the cross product,
  but the loop of \<^verbatim>\<open>calculateSpecialDamage\<close> keeps its initial 1.0; the special attack
  then deals \<open>60 * 1 - 50 = 10\<close> instead of 0.
\<close>

theorem maxMultiplier_fire_vs_water:
  "calculateTypeEffectiveness ''Fire'' ''Water'' = 1 / 2
   \<and> maxOverCrossProduct (Type charmander) (Type psyduck) = 1 / 2
   \<and> maxMultiplier charmander psyduck = 1
   \<and> calculateSpecialDamage (Some charmander) (Some psyduck) = Inr 10"
  by (simp add: maxOverCrossProduct_def maxMultiplier_def calculateSpecialDamage_def
      deref_def go_int_def charmander_def psyduck_def newPokemon_def
      calculateTypeEffectiveness_def typeChart_def)

text \<open>Within the range where the float arithmetic is exact, the conversion \<^verbatim>\<open>int(...)\<close>
  of \<^verbatim>\<open>calculateSpecialDamage\<close>, which truncates, cannot be told from rounding to the
  nearest integer: the multiplier the loop resolves is 1 or 2, so the value converted
  is a whole number.\<close>

lemma calculateSpecialDamage_rounding:
  "floatExact a d \<Longrightarrow>
   calculateSpecialDamage (Some a) (Some d) =
     Inr (max 0 (round (of_int (SpecialAttack a) * maxMultiplier a d - of_int (SpecialDefense d))))
   \<and> of_int (SpecialAttack a) * maxMultiplier a d - of_int (SpecialDefense d) \<in> (\<int> :: rat set)"
  unfolding calculateSpecialDamage_def deref_Some special_value_integral
  by (simp add: go_int_of_int Let_def max_def del: of_int_diff of_int_mult)

text \<open>
  C2 (evaluation of the code at the failing input): with the effectiveness multiplier
  of the claim, the maximum over the type pairs, a Fire attacker with special attack 60
  against a Water defender with special defense 50 deals
  \<open>max 0 (round (60 * 0.5 - 50)) = 0\<close>; \<^verbatim>\<open>calculateSpecialDamage\<close> returns 10, because
  its loop resolves the multiplier 1.0.
\<close>

theorem special_damage_fire_vs_water:
  "maxOverCrossProduct (Type charmander) (Type psyduck) = 1 / 2
   \<and> max 0 (round (of_int (SpecialAttack charmander)
                      * maxOverCrossProduct (Type charmander) (Type psyduck)
                    - of_int (SpecialDefense psyduck))) = (0 :: int)
   \<and> calculateSpecialDamage (Some charmander) (Some psyduck) = Inr 10"
proof -
  have m: "maxOverCrossProduct (Type charmander) (Type psyduck) = 1 / 2"
    by (simp add: maxOverCrossProduct_def charmander_def psyduck_def newPokemon_def
        calculateTypeEffectiveness_def typeChart_def)
  have f: "of_int (SpecialAttack charmander) * (1 / 2) - of_int (SpecialDefense psyduck) = (- 20 :: rat)"
    by (simp add: charmander_def psyduck_def newPokemon_def)
  have r: "max 0 (round (- 20 :: rat)) = (0 :: int)"
    by (simp add: round_def)
  have c: "calculateSpecialDamage (Some charmander) (Some psyduck) = Inr 10"
    by (simp add: maxMultiplier_def calculateSpecialDamage_def deref_def go_int_def
        charmander_def psyduck_def newPokemon_def calculateTypeEffectiveness_def typeChart_def)
  show ?thesis
    unfolding m f r using c by simp
qed

lemma calculateNormalDamage_value:
  "calculateNormalDamage (Some a) (Some d) = Inr (max 0 (wrap64 (Attack a - Defense d)))"
  by (simp add: calculateNormalDamage_def deref_def Let_def max_def)

lemma calculateSpecialDamage_nonneg:
  "\<exists>n. calculateSpecialDamage (Some a) (Some d) = Inr n \<and> 0 \<le> n"
  by (simp add: calculateSpecialDamage_def deref_def Let_def)

text \<open>
  C8: \<^verbatim>\<open>calculateNormalDamage\<close> returns \<open>max 0 (Attack - Defense)\<close>, the subtraction
  being Go's (it is the mathematical one whenever the difference fits an
  \<^verbatim>\<open>int\<close>); both damage functions return 0 when the value they subtract to is negative,
  and neither ever returns a negative damage.
\<close>

theorem damage_never_negative:
  "calculateNormalDamage (Some a) (Some d) = Inr (max 0 (wrap64 (Attack a - Defense d)))
   \<and> (is_int64 (Attack a - Defense d) \<longrightarrow>
        calculateNormalDamage (Some a) (Some d) = Inr (max 0 (Attack a - Defense d)))
   \<and> (wrap64 (Attack a - Defense d) < 0 \<longrightarrow> calculateNormalDamage (Some a) (Some d) = Inr 0)
   \<and> (of_int (SpecialAttack a) * maxMultiplier a d - of_int (SpecialDefense d) < (0 :: rat) \<longrightarrow>
        calculateSpecialDamage (Some a) (Some d) = Inr 0)
   \<and> (\<exists>n. calculateNormalDamage (Some a) (Some d) = Inr n \<and> 0 \<le> n)
   \<and> (\<exists>n. calculateSpecialDamage (Some a) (Some d) = Inr n \<and> 0 \<le> n)"
proof -
  note normal = calculateNormalDamage_value [of a d]
  have special: "calculateSpecialDamage (Some a) (Some d) =
      Inr (max 0 (go_int (of_int (SpecialAttack a) * maxMultiplier a d - of_int (SpecialDefense d))))"
    by (simp add: calculateSpecialDamage_def deref_def Let_def max_def)
  let ?f = "of_int (SpecialAttack a) * maxMultiplier a d - of_int (SpecialDefense d) :: rat"
  have neg: "max 0 (go_int ?f) = 0" if "?f < 0"
  proof -
    have "\<lceil>?f\<rceil> \<le> 0" using that by (simp only: ceiling_le_zero less_imp_le)
    then show ?thesis using that by (simp only: go_int_def if_True max_absorb1)
  qed
  have c2: "is_int64 (Attack a - Defense d) \<longrightarrow>
        calculateNormalDamage (Some a) (Some d) = Inr (max 0 (Attack a - Defense d))"
    by (simp add: normal wrap64_id)
  have c3: "wrap64 (Attack a - Defense d) < 0 \<longrightarrow> calculateNormalDamage (Some a) (Some d) = Inr 0"
    by (simp add: normal)
  have c4: "?f < 0 \<longrightarrow> calculateSpecialDamage (Some a) (Some d) = Inr 0"
    using neg by (simp only: special) blast
  have c5: "\<exists>n. calculateNormalDamage (Some a) (Some d) = Inr n \<and> 0 \<le> n"
    by (simp add: normal)
  have c6: "\<exists>n. calculateSpecialDamage (Some a) (Some d) = Inr n \<and> 0 \<le> n"
    by (simp add: special)
  from normal c2 c3 c4 c5 c6 show ?thesis by blast
qed

theorem damage_never_negative_witness:
  "is_int64 (Attack charmander - Defense squirtle)
   \<and> wrap64 (Attack charmander - Defense squirtle) < 0
   \<and> of_int (SpecialAttack charmander) * maxMultiplier charmander squirtle
        - of_int (SpecialDefense squirtle) < (0 :: rat)
   \<and> calculateNormalDamage (Some charmander) (Some squirtle) = Inr 0
   \<and> calculateSpecialDamage (Some charmander) (Some squirtle) = Inr 0
   \<and> calculateNormalDamage (Some machamp) (Some abra) = Inr 115"
proof -
  have h1: "is_int64 (Attack charmander - Defense squirtle)"
    by (simp add: is_int64_def charmander_def squirtle_def newPokemon_def)
  have h2: "wrap64 (Attack charmander - Defense squirtle) < 0"
    by (simp add: wrap64_def charmander_def squirtle_def newPokemon_def)
  have h3: "of_int (SpecialAttack charmander) * maxMultiplier charmander squirtle
        - of_int (SpecialDefense squirtle) < (0 :: rat)"
    by (simp add: maxMultiplier_def charmander_def squirtle_def newPokemon_def
        calculateTypeEffectiveness_def typeChart_def)
  have h4: "is_int64 (Attack machamp - Defense abra)"
    by (simp add: is_int64_def machamp_def abra_def newPokemon_def)
  have h5: "max 0 (Attack machamp - Defense abra) = 115"
    by (simp add: machamp_def abra_def newPokemon_def)
  from damage_never_negative [of charmander squirtle] h1 h2 h3
  have r1: "calculateNormalDamage (Some charmander) (Some squirtle) = Inr 0"
    and r2: "calculateSpecialDamage (Some charmander) (Some squirtle) = Inr 0"
    by blast+
  from damage_never_negative [of machamp abra] h4
  have "calculateNormalDamage (Some machamp) (Some abra) = Inr (max 0 (Attack machamp - Defense abra))"
    by blast
  then have r3: "calculateNormalDamage (Some machamp) (Some abra) = Inr 115"
    by (simp only: h5)
  from h1 h2 h3 r1 r2 r3 show ?thesis by blast
qed

section \<open>Properties of the battle exchange\<close>

lemma exampleBattle_reached:
  "electFirst 1 2 0
     (chooseTeam 2 0 [Some 3, Some 2, Some 2]
        (chooseTeam 1 0 [Some 1, None, Some 1, Some 9, Some 4]
           ([machamp, abra, squirtle, charmander], [(1, newClient), (2, newClient)])))
   = Inr exampleBattle"
  by (simp add: electFirst_def exampleBattle_def updateClient_def newClient_def load_def activate_def
      machamp_def squirtle_def newPokemon_def)

lemma exampleBattle_attack:
  "attackTurn 1 (Some 1) exampleBattle = Inr (TurnPassed exampleBattle1)"
  by (simp add: attackTurn_def exampleBattle_def exampleBattle1_def updateClient_def newClient_def
      load_def findOpponent_def attackDamage_def calculateNormalDamage_def deref_def wrap64_def
      machamp_def squirtle_def abra_def charmander_def newPokemon_def)

lemma map_of_updateClient_same:
  "map_of cls c = Some v \<Longrightarrow> map_of (updateClient c new cls) c = Some new"
  by (induction cls) (auto simp: updateClient_def split: if_splits)

lemma map_of_updateClient_other:
  "k \<noteq> c \<Longrightarrow> map_of (updateClient c new cls) k = map_of cls k"
  by (induction cls) (auto simp: updateClient_def)

lemma findOpponent_map_of:
  "findOpponent c cls = Some (otherConn, opponentClient) \<Longrightarrow>
     otherConn \<noteq> c \<and> map_of cls otherConn = Some opponentClient"
  unfolding findOpponent_def
  by (induction cls) (auto split: if_splits)

lemma attackDamage_ex:
  "\<exists>damage. attackDamage choice (Some a) (Some d) = Inr damage \<and> 0 \<le> damage"
proof (cases "choice = 1")
  case True
  then show ?thesis by (simp add: attackDamage_def calculateNormalDamage_value)
next
  case False
  then show ?thesis
    using calculateSpecialDamage_nonneg[of a d] by (simp add: attackDamage_def)
qed

text \<open>
  C4 (counterexample): in a battle reached by the team selection and the election of
  \<^verbatim>\<open>main\<close>, player 1's normal attack takes the defender's HP from 44 to -21: the HP is
  not clamped at 0.
\<close>

theorem hp_not_clamped_counterexample:
  "HP (fst exampleBattle ! 2) = 44
   \<and> (case attackTurn 1 (Some 1) exampleBattle of
        Inr (TurnPassed (dex', cls')) \<Rightarrow> HP (dex' ! 2)
      | _ \<Rightarrow> 0) = - 21"
  by (simp add: attackTurn_def exampleBattle_def updateClient_def newClient_def load_def
      findOpponent_def attackDamage_def calculateNormalDamage_def deref_def wrap64_def
      machamp_def squirtle_def abra_def charmander_def newPokemon_def)

lemma attackTurn_carried_out:
  assumes client: "map_of cls c = Some client"
    and team: "team client = attacker # rest"
    and active: "isActive client"
    and choice: "attackChoice = 1 \<or> attackChoice = 2"
    and opp: "findOpponent c cls = Some (otherConn, opponentClient)"
    and oteam: "team opponentClient = defender # others"
    and valid: "attacker < length dex" "defender < length dex"
  shows "\<exists>damage dex' cls'.
           attackDamage attackChoice (Some (dex ! attacker)) (Some (dex ! defender)) = Inr damage
         \<and> 0 \<le> damage
         \<and> (attackTurn c (Some attackChoice) (dex, cls) = Inr (TurnPassed (dex', cls'))
            \<or> attackTurn c (Some attackChoice) (dex, cls) = Inr (BattleWon (dex', cls')))
         \<and> dex' = dex[defender := (dex ! defender)\<lparr>HP := wrap64 (HP (dex ! defender) - damage)\<rparr>]
         \<and> HP (dex' ! defender) = wrap64 (HP (dex ! defender) - damage)
         \<and> map_option team (map_of cls' otherConn)
             = Some (if HP (dex' ! defender) \<le> 0 then others else defender # others)"
proof -
  obtain damage where dmg:
    "attackDamage attackChoice (Some (dex ! attacker)) (Some (dex ! defender)) = Inr damage"
    and nonneg: "0 \<le> damage"
    using attackDamage_ex by blast
  from findOpponent_map_of[OF opp]
  have ne: "otherConn \<noteq> c" and omap: "map_of cls otherConn = Some opponentClient"
    by simp_all
  let ?hp = "wrap64 (HP (dex ! defender) - damage)"
  let ?dex = "dex[defender := (dex ! defender)\<lparr>HP := ?hp\<rparr>]"
  have hp: "HP (?dex ! defender) = ?hp"
    using valid by simp
  show ?thesis
  proof (cases "?hp \<le> 0")
    case fainted: True
    let ?cl = "updateClient otherConn (opponentClient\<lparr>team := others\<rparr>) cls"
    show ?thesis
    proof (cases "others = []")
      case True
      have "attackTurn c (Some attackChoice) (dex, cls) = Inr (BattleWon (?dex, ?cl))"
        using client team active choice opp oteam valid dmg fainted True
        by (auto simp: attackTurn_def load_def Let_def)
      moreover have "map_option team (map_of ?cl otherConn) = Some others"
        using omap by (simp add: map_of_updateClient_same)
      ultimately show ?thesis
        using dmg nonneg hp fainted by auto
    next
      case False
      let ?cl2 = "updateClient otherConn (opponentClient\<lparr>team := others, isActive := True\<rparr>)
                    (updateClient c (client\<lparr>isActive := False\<rparr>) ?cl)"
      have "attackTurn c (Some attackChoice) (dex, cls) = Inr (TurnPassed (?dex, ?cl2))"
        using client team active choice opp oteam valid dmg fainted False
        by (auto simp: attackTurn_def load_def Let_def)
      moreover have "map_option team (map_of ?cl2 otherConn) = Some others"
        using omap ne by (simp add: map_of_updateClient_same map_of_updateClient_other)
      ultimately show ?thesis
        using dmg nonneg hp fainted by auto
    qed
  next
    case False
    let ?cl2 = "updateClient otherConn (opponentClient\<lparr>isActive := True\<rparr>)
                  (updateClient c (client\<lparr>isActive := False\<rparr>)
                     (updateClient otherConn opponentClient cls))"
    have "attackTurn c (Some attackChoice) (dex, cls) = Inr (TurnPassed (?dex, ?cl2))"
      using client team active choice opp oteam valid dmg False
      by (auto simp: attackTurn_def load_def Let_def)
    moreover have "map_option team (map_of ?cl2 otherConn) = Some (defender # others)"
      using omap ne oteam by (simp add: map_of_updateClient_same map_of_updateClient_other)
    ultimately show ?thesis
      using dmg nonneg hp False by auto
  qed
qed


text \<open>
  C4 (amended): when the active client attacks with choice 1 or 2 and the opponent has a
  creature, the turn is carried out (it passes, or the battle is won) and the defender's
  HP afterwards is its HP before minus the damage, in Go's subtraction, with no clamp;
  the damage is not negative. Whenever that difference fits an \<^verbatim>\<open>int\<close> it is the
  mathematical difference: the HP then does not rise, and it is negative exactly when
  the damage exceeds it. The struck creature leaves its owner's team if and only if the
  HP afterwards is at most 0.
\<close>

theorem attackTurn_subtracts_damage:
  assumes client: "map_of cls c = Some client"
    and team: "team client = attacker # rest"
    and active: "isActive client"
    and choice: "attackChoice = 1 \<or> attackChoice = 2"
    and opp: "findOpponent c cls = Some (otherConn, opponentClient)"
    and oteam: "team opponentClient = defender # others"
    and valid: "attacker < length dex" "defender < length dex"
  shows "\<exists>damage dex' cls'.
           attackDamage attackChoice (Some (dex ! attacker)) (Some (dex ! defender)) = Inr damage
         \<and> 0 \<le> damage
         \<and> (attackTurn c (Some attackChoice) (dex, cls) = Inr (TurnPassed (dex', cls'))
            \<or> attackTurn c (Some attackChoice) (dex, cls) = Inr (BattleWon (dex', cls')))
         \<and> HP (dex' ! defender) = wrap64 (HP (dex ! defender) - damage)
         \<and> (is_int64 (HP (dex ! defender) - damage) \<longrightarrow>
               HP (dex' ! defender) = HP (dex ! defender) - damage
             \<and> HP (dex' ! defender) \<le> HP (dex ! defender)
             \<and> (HP (dex' ! defender) < 0 \<longleftrightarrow> HP (dex ! defender) < damage))
         \<and> map_option team (map_of cls' otherConn)
             = Some (if HP (dex' ! defender) \<le> 0 then others else defender # others)"
proof -
  from attackTurn_carried_out[OF assms] obtain damage dex' cls' where
    d: "attackDamage attackChoice (Some (dex ! attacker)) (Some (dex ! defender)) = Inr damage"
    and n: "0 \<le> damage"
    and t: "attackTurn c (Some attackChoice) (dex, cls) = Inr (TurnPassed (dex', cls'))
            \<or> attackTurn c (Some attackChoice) (dex, cls) = Inr (BattleWon (dex', cls'))"
    and hp: "HP (dex' ! defender) = wrap64 (HP (dex ! defender) - damage)"
    and tm: "map_option team (map_of cls' otherConn)
             = Some (if HP (dex' ! defender) \<le> 0 then others else defender # others)"
    by blast
  have r: "is_int64 (HP (dex ! defender) - damage) \<longrightarrow>
               HP (dex' ! defender) = HP (dex ! defender) - damage
             \<and> HP (dex' ! defender) \<le> HP (dex ! defender)
             \<and> (HP (dex' ! defender) < 0 \<longleftrightarrow> HP (dex ! defender) < damage)"
  proof
    assume "is_int64 (HP (dex ! defender) - damage)"
    then have "HP (dex' ! defender) = HP (dex ! defender) - damage"
      by (simp only: hp wrap64_id)
    then show "HP (dex' ! defender) = HP (dex ! defender) - damage
             \<and> HP (dex' ! defender) \<le> HP (dex ! defender)
             \<and> (HP (dex' ! defender) < 0 \<longleftrightarrow> HP (dex ! defender) < damage)"
      using n by auto
  qed
  from d n t hp r tm show ?thesis by blast
qed

theorem attackTurn_subtracts_damage_witness:
  "attackDamage 1 (Some machamp) (Some squirtle) = Inr 65
   \<and> is_int64 (HP squirtle - 65)
   \<and> (\<exists>dex' cls'.
        (attackTurn 1 (Some 1) exampleBattle = Inr (TurnPassed (dex', cls'))
         \<or> attackTurn 1 (Some 1) exampleBattle = Inr (BattleWon (dex', cls')))
      \<and> HP (dex' ! 2) = HP squirtle - 65
      \<and> HP (dex' ! 2) \<le> HP squirtle
      \<and> HP (dex' ! 2) < 0
      \<and> map_option team (map_of cls' 2) = Some [1, 1])"
proof -
  have dmg: "attackDamage 1 (Some machamp) (Some squirtle) = Inr 65"
    by (simp add: attackDamage_def calculateNormalDamage_def deref_def wrap64_def
        machamp_def squirtle_def newPokemon_def)
  have rng: "is_int64 (HP squirtle - 65)" and hp: "HP squirtle = 44"
    by (simp_all add: is_int64_def squirtle_def newPokemon_def)
  from attackTurn_subtracts_damage
    [where cls = "snd exampleBattle" and c = 1
       and client = "newClient\<lparr>team := [0, 0, 3], isActive := True\<rparr>"
       and attacker = 0 and rest = "[0, 3]" and attackChoice = 1 and otherConn = 2
       and opponentClient = "newClient\<lparr>team := [2, 1, 1]\<rparr>"
       and defender = 2 and others = "[1, 1]" and dex = "fst exampleBattle"]
  obtain damage dex' cls' where
    d: "attackDamage 1 (Some machamp) (Some squirtle) = Inr damage"
    and t: "attackTurn 1 (Some 1) exampleBattle = Inr (TurnPassed (dex', cls'))
            \<or> attackTurn 1 (Some 1) exampleBattle = Inr (BattleWon (dex', cls'))"
    and r: "is_int64 (HP squirtle - damage) \<longrightarrow>
               HP (dex' ! 2) = HP squirtle - damage
             \<and> HP (dex' ! 2) \<le> HP squirtle
             \<and> (HP (dex' ! 2) < 0 \<longleftrightarrow> HP squirtle < damage)"
    and tm: "map_option team (map_of cls' 2) = Some (if HP (dex' ! 2) \<le> 0 then [1, 1] else [2, 1, 1])"
    by (auto simp: exampleBattle_def findOpponent_def newClient_def)
  from d dmg have e: "damage = 65" by simp
  from r rng have r': "HP (dex' ! 2) = HP squirtle - 65" "HP (dex' ! 2) \<le> HP squirtle"
    "HP (dex' ! 2) < 0 \<longleftrightarrow> HP squirtle < 65"
    unfolding e by blast+
  from r'(3) hp have neg: "HP (dex' ! 2) < 0" by simp
  from tm neg have tm': "map_option team (map_of cls' 2) = Some [1, 1]" by simp
  from dmg rng t r'(1,2) neg tm' show ?thesis by blast
qed

section \<open>The registry under spawning, drafting and damage\<close>

lemma onlyLevelEV_refl: "onlyLevelEV xs xs"
  by (simp add: onlyLevelEV_def list_all2_conv_all_nth)

lemma onlyLevelEV_trans:
  "onlyLevelEV xs ys \<Longrightarrow> onlyLevelEV ys zs \<Longrightarrow> onlyLevelEV xs zs"
  unfolding onlyLevelEV_def list_all2_conv_all_nth
proof (intro conjI allI impI)
  assume a: "length xs = length ys \<and> (\<forall>i<length xs. ys ! i = (xs ! i)\<lparr>Level := Level (ys ! i), EV := EV (ys ! i)\<rparr>)"
    and b: "length ys = length zs \<and> (\<forall>i<length ys. zs ! i = (ys ! i)\<lparr>Level := Level (zs ! i), EV := EV (zs ! i)\<rparr>)"
  show "length xs = length zs" using a b by simp
  fix i assume i: "i < length xs"
  from a i have 1: "ys ! i = (xs ! i)\<lparr>Level := Level (ys ! i), EV := EV (ys ! i)\<rparr>" by blast
  from a b i have 2: "zs ! i = (ys ! i)\<lparr>Level := Level (zs ! i), EV := EV (zs ! i)\<rparr>" by simp
  show "zs ! i = (xs ! i)\<lparr>Level := Level (zs ! i), EV := EV (zs ! i)\<rparr>"
    by (subst 2, subst 1) simp
qed

lemma spawnBody_onlyLevelEV:
  "spawnBody r pw = Inr pw' \<Longrightarrow> onlyLevelEV (pokedex pw) (pokedex pw')"
  by (auto simp: spawnBody_def Let_def onlyLevelEV_def list_all2_conv_all_nth nth_list_update
      split: if_splits)

lemma spawnLoop_onlyLevelEV:
  "spawnLoop rnd i k pw = Inr pw' \<Longrightarrow> onlyLevelEV (pokedex pw) (pokedex pw')"
proof (induction k arbitrary: i pw)
  case 0
  then show ?case by (simp add: onlyLevelEV_refl)
next
  case (Suc k)
  show ?case
  proof (cases "TotalPokemon pw < 50")
    case False
    with Suc.prems show ?thesis by (simp add: onlyLevelEV_refl)
  next
    case True
    with Suc.prems obtain pw1 where b: "spawnBody (rnd i) pw = Inr pw1"
      and l: "spawnLoop rnd (Suc i) k pw1 = Inr pw'"
      by (auto split: sum.splits)
    from spawnBody_onlyLevelEV[OF b] Suc.IH[OF l] show ?thesis
      by (rule onlyLevelEV_trans)
  qed
qed

lemma chooseTeam_pokedex: "fst (chooseTeam c i inputs (dex, cls)) = dex"
  by (induction inputs arbitrary: i cls) (auto split: option.splits)

lemma attackTurn_pokedex:
  assumes "attackTurn c attackInput (dex, cls) = Inr out"
    and "out = TurnPassed (dex', cls') \<or> out = BattleWon (dex', cls')"
  shows "\<exists>defender. defender < length dex \<and> onlyHP defender dex dex'"
  using assms
  by (auto simp: attackTurn_def onlyHP_def Let_def
      split: option.splits list.splits if_splits sum.splits prod.splits)

lemma world0_spawn: "spawnPokemon 1 (\<lambda>_. draw0) world0 = Inr world1"
  by (simp add: spawnPokemon_def spawnBody_def world0_def world1_def draw0_def
      worldSizeX_def worldSizeY_def charmander_def newPokemon_def)

text \<open>
  C3 (counterexample): the entries of the pokedex are changed after load. A spawn
  overwrites the level of entry 0 (from 1 to 38), and a battle hit lowers the HP of
  entry 2 (from 44 to -21): teams and grid cells hold pointers into the pokedex, not
  copies.
\<close>

theorem registry_mutated_counterexample:
  "Level (pokedex world0 ! 0) = 1
   \<and> (case spawnPokemon 1 (\<lambda>_. draw0) world0 of
        Inr pw' \<Rightarrow> Level (pokedex pw' ! 0)
      | Inl _ \<Rightarrow> 1) = 38
   \<and> HP (fst exampleBattle ! 2) = 44
   \<and> (case attackTurn 1 (Some 1) exampleBattle of
        Inr (TurnPassed (dex', cls')) \<Rightarrow> HP (dex' ! 2)
      | _ \<Rightarrow> 44) = - 21"
  unfolding world0_spawn exampleBattle_attack
  by (simp add: world0_def world1_def exampleBattle_def exampleBattle1_def
      charmander_def squirtle_def newPokemon_def)

lemma spawnBody_empty_cell:
  assumes "grid pw (cellOf r) = None" and "pokedex pw \<noteq> []"
  shows "\<exists>pw'. spawnBody r pw = Inr pw'
           \<and> pokedex pw' = (pokedex pw)[dindex r mod length (pokedex pw) :=
                 (pokedex pw ! (dindex r mod length (pokedex pw)))
                   \<lparr>Level := int (dlevel r mod 100) + 1, EV := frac (dev r) * (1 / 2) + 1 / 2\<rparr>]"
  using assms by (simp add: spawnBody_def cellOf_def Let_def)

lemma spawnBody_occupied_cell:
  "grid pw (cellOf r) \<noteq> None \<Longrightarrow> spawnBody r pw = Inr pw"
  by (auto simp: spawnBody_def cellOf_def Let_def)

lemma world1_occupied: "grid world1 (cellOf draw0) \<noteq> None"
  by (simp add: world1_def cellOf_def draw0_def worldSizeX_def worldSizeY_def)

text \<open>
  C3 (amended): the registry entries are shared by pointer and are changed after load in
  exactly two ways. A pass of the spawn loop that finds its cell empty overwrites
  \<^verbatim>\<open>Level\<close> and \<^verbatim>\<open>EV\<close> of the drawn entry with the drawn values and leaves the rest of
  the registry as it was, and a pass that finds the cell occupied changes nothing; so a
  call of \<^verbatim>\<open>spawnPokemon\<close> keeps the number of entries and every field of every entry
  except \<^verbatim>\<open>Level\<close> and \<^verbatim>\<open>EV\<close>. Drafting creatures into a team changes nothing in the
  registry. A battle turn that is carried out replaces the \<^verbatim>\<open>HP\<close> of the entry the
  opponent's lead points to by that HP minus the damage (Go's subtraction) and leaves
  the rest of the registry as it was.
\<close>

theorem registry_changes:
  "(grid pw (cellOf r) = None \<and> pokedex pw \<noteq> [] \<longrightarrow>
      (\<exists>pw1. spawnBody r pw = Inr pw1
         \<and> pokedex pw1 = (pokedex pw)[dindex r mod length (pokedex pw) :=
               (pokedex pw ! (dindex r mod length (pokedex pw)))
                 \<lparr>Level := int (dlevel r mod 100) + 1, EV := frac (dev r) * (1 / 2) + 1 / 2\<rparr>]))
   \<and> (grid pw (cellOf r) \<noteq> None \<longrightarrow> spawnBody r pw = Inr pw)
   \<and> (spawnPokemon numPokemon rnd pw = Inr pw' \<longrightarrow> onlyLevelEV (pokedex pw) (pokedex pw'))
   \<and> fst (chooseTeam c i inputs (dex, cls)) = dex
   \<and> (map_of cls c = Some client \<and> team client = attacker # rest \<and> isActive client
        \<and> (attackChoice = 1 \<or> attackChoice = 2)
        \<and> findOpponent c cls = Some (otherConn, opponentClient)
        \<and> team opponentClient = defender # others
        \<and> attacker < length dex \<and> defender < length dex
      \<longrightarrow> (\<exists>damage cls1.
             attackDamage attackChoice (Some (dex ! attacker)) (Some (dex ! defender)) = Inr damage
           \<and> (attackTurn c (Some attackChoice) (dex, cls)
                 = Inr (TurnPassed
                     (dex[defender := (dex ! defender)\<lparr>HP := wrap64 (HP (dex ! defender) - damage)\<rparr>],
                      cls1))
              \<or> attackTurn c (Some attackChoice) (dex, cls)
                 = Inr (BattleWon
                     (dex[defender := (dex ! defender)\<lparr>HP := wrap64 (HP (dex ! defender) - damage)\<rparr>],
                      cls1)))))
   \<and> (attackTurn c attackInput (dex, cls) = Inr (TurnPassed (dex', cls'))
        \<or> attackTurn c attackInput (dex, cls) = Inr (BattleWon (dex', cls'))
      \<longrightarrow> (\<exists>d. d < length dex \<and> onlyHP d dex dex'))"
proof (intro conjI impI)
  assume "grid pw (cellOf r) = None \<and> pokedex pw \<noteq> []"
  then show "\<exists>pw1. spawnBody r pw = Inr pw1
         \<and> pokedex pw1 = (pokedex pw)[dindex r mod length (pokedex pw) :=
               (pokedex pw ! (dindex r mod length (pokedex pw)))
                 \<lparr>Level := int (dlevel r mod 100) + 1, EV := frac (dev r) * (1 / 2) + 1 / 2\<rparr>]"
    using spawnBody_empty_cell by blast
next
  assume "grid pw (cellOf r) \<noteq> None"
  then show "spawnBody r pw = Inr pw" by (rule spawnBody_occupied_cell)
next
  assume "spawnPokemon numPokemon rnd pw = Inr pw'"
  then show "onlyLevelEV (pokedex pw) (pokedex pw')"
    unfolding spawnPokemon_def by (rule spawnLoop_onlyLevelEV)
next
  show "fst (chooseTeam c i inputs (dex, cls)) = dex"
    by (rule chooseTeam_pokedex)
next
  assume a: "map_of cls c = Some client \<and> team client = attacker # rest \<and> isActive client
        \<and> (attackChoice = 1 \<or> attackChoice = 2)
        \<and> findOpponent c cls = Some (otherConn, opponentClient)
        \<and> team opponentClient = defender # others
        \<and> attacker < length dex \<and> defender < length dex"
  from a have "\<exists>damage dex1 cls1.
           attackDamage attackChoice (Some (dex ! attacker)) (Some (dex ! defender)) = Inr damage
         \<and> 0 \<le> damage
         \<and> (attackTurn c (Some attackChoice) (dex, cls) = Inr (TurnPassed (dex1, cls1))
            \<or> attackTurn c (Some attackChoice) (dex, cls) = Inr (BattleWon (dex1, cls1)))
         \<and> dex1 = dex[defender := (dex ! defender)\<lparr>HP := wrap64 (HP (dex ! defender) - damage)\<rparr>]
         \<and> HP (dex1 ! defender) = wrap64 (HP (dex ! defender) - damage)
         \<and> map_option team (map_of cls1 otherConn)
             = Some (if HP (dex1 ! defender) \<le> 0 then others else defender # others)"
    by (intro attackTurn_carried_out) blast+
  then show "\<exists>damage cls1.
             attackDamage attackChoice (Some (dex ! attacker)) (Some (dex ! defender)) = Inr damage
           \<and> (attackTurn c (Some attackChoice) (dex, cls)
                 = Inr (TurnPassed
                     (dex[defender := (dex ! defender)\<lparr>HP := wrap64 (HP (dex ! defender) - damage)\<rparr>],
                      cls1))
              \<or> attackTurn c (Some attackChoice) (dex, cls)
                 = Inr (BattleWon
                     (dex[defender := (dex ! defender)\<lparr>HP := wrap64 (HP (dex ! defender) - damage)\<rparr>],
                      cls1)))"
    by blast
next
  assume "attackTurn c attackInput (dex, cls) = Inr (TurnPassed (dex', cls'))
        \<or> attackTurn c attackInput (dex, cls) = Inr (BattleWon (dex', cls'))"
  then show "\<exists>d. d < length dex \<and> onlyHP d dex dex'"
    using attackTurn_pokedex by blast
qed

theorem registry_changes_witness:
  "grid world0 (cellOf draw0) = None \<and> pokedex world0 \<noteq> []
   \<and> spawnBody draw0 world0 = Inr world1
   \<and> pokedex world1 = [charmander\<lparr>Level := 38, EV := 3 / 4\<rparr>, squirtle]
   \<and> grid world1 (cellOf draw0) \<noteq> None
   \<and> spawnBody draw0 world1 = Inr world1
   \<and> spawnPokemon 1 (\<lambda>_. draw0) world0 = Inr world1
   \<and> onlyLevelEV (pokedex world0) (pokedex world1)
   \<and> fst (chooseTeam 1 0 [Some 1, None, Some 1, Some 9, Some 4]
            ([machamp, abra, squirtle, charmander], [(1, newClient), (2, newClient)]))
       = [machamp, abra, squirtle, charmander]
   \<and> attackDamage 1 (Some machamp) (Some squirtle) = Inr 65
   \<and> attackTurn 1 (Some 1) exampleBattle = Inr (TurnPassed exampleBattle1)
   \<and> fst exampleBattle1 = (fst exampleBattle)[2 := squirtle\<lparr>HP := - 21\<rparr>]
   \<and> (\<exists>damage cls1.
         attackDamage 1 (Some (fst exampleBattle ! 0)) (Some (fst exampleBattle ! 2)) = Inr damage
       \<and> (attackTurn 1 (Some 1) (fst exampleBattle, snd exampleBattle)
             = Inr (TurnPassed
                 ((fst exampleBattle)[2 := (fst exampleBattle ! 2)
                     \<lparr>HP := wrap64 (HP (fst exampleBattle ! 2) - damage)\<rparr>], cls1))
          \<or> attackTurn 1 (Some 1) (fst exampleBattle, snd exampleBattle)
             = Inr (BattleWon
                 ((fst exampleBattle)[2 := (fst exampleBattle ! 2)
                     \<lparr>HP := wrap64 (HP (fst exampleBattle ! 2) - damage)\<rparr>], cls1))))
   \<and> (\<exists>d. d < length (fst exampleBattle) \<and> onlyHP d (fst exampleBattle) (fst exampleBattle1))"
proof -
  have e: "grid world0 (cellOf draw0) = None" "pokedex world0 \<noteq> []"
    by (simp_all add: world0_def)
  have o: "grid world1 (cellOf draw0) \<noteq> None" by (rule world1_occupied)
  have body: "spawnBody draw0 world0 = Inr world1"
    by (simp add: spawnBody_def world0_def world1_def draw0_def
        worldSizeX_def worldSizeY_def charmander_def newPokemon_def)
  have dex1: "pokedex world1 = [charmander\<lparr>Level := 38, EV := 3 / 4\<rparr>, squirtle]"
    by (simp add: world1_def)
  have dmg: "attackDamage 1 (Some machamp) (Some squirtle) = Inr 65"
    by (simp add: attackDamage_def calculateNormalDamage_def deref_def wrap64_def
        machamp_def squirtle_def newPokemon_def)
  have b1: "fst exampleBattle1 = (fst exampleBattle)[2 := squirtle\<lparr>HP := - 21\<rparr>]"
    by (simp add: exampleBattle_def exampleBattle1_def)
  note w = registry_changes
    [where pw = world0 and r = draw0 and numPokemon = 1 and rnd = "\<lambda>_. draw0" and pw' = world1
       and c = 1 and i = 0 and inputs = "[Some 1, None, Some 1, Some 9, Some 4]"
       and dex = "[machamp, abra, squirtle, charmander]" and cls = "[(1, newClient), (2, newClient)]"]
  note w2 = registry_changes [where pw = world1 and r = draw0]
  note w3 = registry_changes
    [where c = 1 and attackInput = "Some 1" and dex = "fst exampleBattle" and cls = "snd exampleBattle"
       and dex' = "fst exampleBattle1" and cls' = "snd exampleBattle1"
       and client = "newClient\<lparr>team := [0, 0, 3], isActive := True\<rparr>"
       and attacker = 0 and rest = "[0, 3]" and attackChoice = 1 and otherConn = 2
       and opponentClient = "newClient\<lparr>team := [2, 1, 1]\<rparr>"
       and defender = 2 and others = "[1, 1]"]
  from w e world0_spawn have s3: "onlyLevelEV (pokedex world0) (pokedex world1)"
    and s4: "fst (chooseTeam 1 0 [Some 1, None, Some 1, Some 9, Some 4]
            ([machamp, abra, squirtle, charmander], [(1, newClient), (2, newClient)]))
       = [machamp, abra, squirtle, charmander]"
    by blast+
  from w2 o have s2: "spawnBody draw0 world1 = Inr world1" by blast
  have t: "attackTurn 1 (Some 1) exampleBattle = Inr (TurnPassed exampleBattle1)"
    by (rule exampleBattle_attack)
  from w3 t have s6: "\<exists>d. d < length (fst exampleBattle) \<and> onlyHP d (fst exampleBattle) (fst exampleBattle1)"
    by simp
  have pre: "map_of (snd exampleBattle) 1 = Some (newClient\<lparr>team := [0, 0, 3], isActive := True\<rparr>)"
    "team (newClient\<lparr>team := [0, 0, 3], isActive := True\<rparr>) = 0 # [0, 3]"
    "isActive (newClient\<lparr>team := [0, 0, 3], isActive := True\<rparr>)"
    "findOpponent 1 (snd exampleBattle) = Some (2, newClient\<lparr>team := [2, 1, 1]\<rparr>)"
    "team (newClient\<lparr>team := [2, 1, 1]\<rparr>) = 2 # [1, 1]"
    "0 < length (fst exampleBattle)" "2 < length (fst exampleBattle)"
    by (simp_all add: exampleBattle_def findOpponent_def newClient_def)
  from w3 pre have s5: "\<exists>damage cls1.
         attackDamage 1 (Some (fst exampleBattle ! 0)) (Some (fst exampleBattle ! 2)) = Inr damage
       \<and> (attackTurn 1 (Some 1) (fst exampleBattle, snd exampleBattle)
             = Inr (TurnPassed
                 ((fst exampleBattle)[2 := (fst exampleBattle ! 2)
                     \<lparr>HP := wrap64 (HP (fst exampleBattle ! 2) - damage)\<rparr>], cls1))
          \<or> attackTurn 1 (Some 1) (fst exampleBattle, snd exampleBattle)
             = Inr (BattleWon
                 ((fst exampleBattle)[2 := (fst exampleBattle ! 2)
                     \<lparr>HP := wrap64 (HP (fst exampleBattle ! 2) - damage)\<rparr>], cls1)))"
    by blast
  from e body dex1 o s2 world0_spawn s3 s4 dmg t b1 s5 s6 show ?thesis by blast
qed

section \<open>Properties of the movement\<close>

lemma go_rem_nonneg: "0 \<le> a \<Longrightarrow> 0 < b \<Longrightarrow> go_rem a b = a mod b"
  by (simp add: go_rem_def sgn_if)

lemma destination_inWorld:
  assumes "0 < worldLen st" and "inWorld st x y"
  shows "inWorld st (fst (destination (worldLen st) direction (x, y)))
                    (snd (destination (worldLen st) direction (x, y)))"
  using assms by (simp add: destination_def inWorld_def)

lemma moved_destination:
  assumes "0 < n" and "0 \<le> Player.X pl" and "0 \<le> Player.Y pl"
    and "direction \<in> {''up'', ''down'', ''left'', ''right''}"
  shows "(if direction = ''up'' then
            pl\<lparr>Player.Y := go_rem (Player.Y pl - 1 + n) n\<rparr>
          else if direction = ''down'' then
            pl\<lparr>Player.Y := go_rem (Player.Y pl + 1) n\<rparr>
          else if direction = ''left'' then
            pl\<lparr>Player.X := go_rem (Player.X pl - 1 + n) n\<rparr>
          else pl\<lparr>Player.X := go_rem (Player.X pl + 1) n\<rparr>)
         = pl\<lparr>Player.X := fst (destination n direction (Player.X pl, Player.Y pl)),
               Player.Y := snd (destination n direction (Player.X pl, Player.Y pl))\<rparr>"
proof -
  consider "direction = ''up''" | "direction = ''down''" | "direction = ''left''" | "direction = ''right''"
    using assms(4) by blast
  then show ?thesis
  proof cases
    case 1
    then show ?thesis using assms(1-3) by (simp add: destination_def go_rem_nonneg)
  next
    case 2
    then show ?thesis using assms(1-3) by (simp add: destination_def go_rem_nonneg)
  next
    case 3
    then show ?thesis using assms(1-3) by (simp add: destination_def go_rem_nonneg)
  next
    case 4
    then show ?thesis using assms(1-3) by (simp add: destination_def go_rem_nonneg)
  qed
qed


lemma handleEncounter_self_blocks:
  "heap st player = Some pl \<Longrightarrow> PlayerMutex player \<in> held \<Longrightarrow>
     handleEncounter held player pokemon st = Inr (Blocks st)"
  by (simp add: handleEncounter_def lock_def)


lemma handlePlayerMovement_unfold:
  assumes h: "heap st p = Some pl"
    and n: "0 < worldLen st"
    and pos: "inWorld st (Player.X pl) (Player.Y pl)"
    and dir: "direction \<in> {''up'', ''down'', ''left'', ''right''}"
    and pl1: "pl1 = pl\<lparr>Player.X := fst (destination (worldLen st) direction (Player.X pl, Player.Y pl)),
               Player.Y := snd (destination (worldLen st) direction (Player.X pl, Player.Y pl))\<rparr>"
    and st1: "st1 = st\<lparr>world := ((world st)((Player.X pl, Player.Y pl) := None))
                                  ((Player.X pl1, Player.Y pl1) \<mapsto> p),
                        heap := (heap st)(p \<mapsto> pl1)\<rparr>"
  shows "handlePlayerMovement p direction st =
           (if blockedAt st (Player.X pl1, Player.Y pl1) then Inr (Returns st)
            else if dom (Pokemons pl1) \<noteq> {} then Inr (Blocks st1)
            else Inr (Returns st1))"
proof -
  have rng: "0 \<le> Player.X pl" "0 \<le> Player.Y pl"
    using pos by (simp_all add: inWorld_def)
  note moved = moved_destination[OF n rng dir, folded pl1]
  have in1: "inWorld st (Player.X pl1) (Player.Y pl1)"
    using destination_inWorld[OF n pos, of direction] by (simp add: pl1)
  have d: "(direction \<notin> {''up'', ''down'', ''left'', ''right''}) = False"
    using dir by blast
  have z: "(worldLen st = 0) = False" using n by simp
  have l1: "lock (PlayerMutex p) {} s k = k {PlayerMutex p}" for s :: World and k
    by (simp add: lock_def)
  have l2: "lock WorldMutex {PlayerMutex p} s k = k {WorldMutex, PlayerMutex p}" for s :: World and k
    by (simp add: lock_def)
  have "heap st1 p = Some pl1" by (simp add: st1)
  moreover have "PlayerMutex p \<in> unlock WorldMutex {WorldMutex, PlayerMutex p}"
    by (simp add: unlock_def)
  ultimately have enc:
    "handleEncounter (unlock WorldMutex {WorldMutex, PlayerMutex p}) p p st1 = Inr (Blocks st1)"
    by (rule handleEncounter_self_blocks)
  show ?thesis
    unfolding handlePlayerMovement_def Let_def h option.case l1 l2 d z if_False moved blockedAt_def
      st1[symmetric] enc
    using in1 pos by (simp only: not_True_eq_False if_False)
qed

text \<open>For each direction and every position inside the grid the call does not panic,
  and the position it leaves behind is the destination, or the old position when the
  destination is held by a player without Pokemon. A player who owns no Pokemon gets
  the call back.\<close>

lemma handlePlayerMovement_position:
  assumes h: "heap st p = Some pl"
    and n: "0 < worldLen st"
    and pos: "inWorld st (Player.X pl) (Player.Y pl)"
    and dir: "direction \<in> {''up'', ''down'', ''left'', ''right''}"
  shows "\<exists>r. handlePlayerMovement p direction st = Inr r
           \<and> position (stateOf r) p =
               Some (if blockedAt st (destination (worldLen st) direction (Player.X pl, Player.Y pl))
                     then (Player.X pl, Player.Y pl)
                     else destination (worldLen st) direction (Player.X pl, Player.Y pl))
           \<and> (dom (Pokemons pl) = {} \<longrightarrow> r = Returns (stateOf r))"
proof -
  let ?d = "destination (worldLen st) direction (Player.X pl, Player.Y pl)"
  define pl1 where "pl1 = pl\<lparr>Player.X := fst ?d, Player.Y := snd ?d\<rparr>"
  define st1 where "st1 = st\<lparr>world := ((world st)((Player.X pl, Player.Y pl) := None))
                                  ((Player.X pl1, Player.Y pl1) \<mapsto> p),
                  heap := (heap st)(p \<mapsto> pl1)\<rparr>"
  note unfold = handlePlayerMovement_unfold[OF h n pos dir pl1_def st1_def]
  have xy: "(Player.X pl1, Player.Y pl1) = ?d" by (simp add: pl1_def)
  have pk: "Pokemons pl1 = Pokemons pl" by (simp add: pl1_def)
  have p1: "position st1 p = Some ?d" by (simp add: position_def pl1_def st1_def)
  have p0: "position st p = Some (Player.X pl, Player.Y pl)" using h by (simp add: position_def)
  show ?thesis
  proof (cases "blockedAt st ?d")
    case True
    then have "handlePlayerMovement p direction st = Inr (Returns st)"
      by (simp only: unfold xy if_True)
    then show ?thesis using True p0 by simp
  next
    case False
    show ?thesis
    proof (cases "dom (Pokemons pl) = {}")
      case True
      then have "handlePlayerMovement p direction st = Inr (Returns st1)"
        using False by (simp add: unfold xy pk)
      then show ?thesis using p1 False by simp
    next
      case owner: False
      then have "handlePlayerMovement p direction st = Inr (Blocks st1)"
        using False by (simp add: unfold xy pk)
      then show ?thesis using p1 False owner by simp
    qed
  qed
qed

text \<open>A player who owns a Pokemon and is not turned back does not get the call back: the
  position and the world are updated, and the goroutine then waits for ever in
  \<^verbatim>\<open>handleEncounter\<close> for the mutex it holds itself.\<close>

lemma handlePlayerMovement_owner_blocks:
  assumes h: "heap st p = Some pl"
    and n: "0 < worldLen st"
    and pos: "inWorld st (Player.X pl) (Player.Y pl)"
    and dir: "direction \<in> {''up'', ''down'', ''left'', ''right''}"
    and owner: "dom (Pokemons pl) \<noteq> {}"
    and free: "\<not> blockedAt st (destination (worldLen st) direction (Player.X pl, Player.Y pl))"
  shows "\<exists>st'. handlePlayerMovement p direction st = Inr (Blocks st')
           \<and> position st' p = Some (destination (worldLen st) direction (Player.X pl, Player.Y pl))"
proof -
  let ?d = "destination (worldLen st) direction (Player.X pl, Player.Y pl)"
  define pl1 where "pl1 = pl\<lparr>Player.X := fst ?d, Player.Y := snd ?d\<rparr>"
  define st1 where "st1 = st\<lparr>world := ((world st)((Player.X pl, Player.Y pl) := None))
                                  ((Player.X pl1, Player.Y pl1) \<mapsto> p),
                  heap := (heap st)(p \<mapsto> pl1)\<rparr>"
  note unfold = handlePlayerMovement_unfold[OF h n pos dir pl1_def st1_def]
  have xy: "(Player.X pl1, Player.Y pl1) = ?d" by (simp add: pl1_def)
  have pk: "Pokemons pl1 = Pokemons pl" by (simp add: pl1_def)
  have p1: "position st1 p = Some ?d" by (simp add: position_def pl1_def st1_def)
  have "handlePlayerMovement p direction st = Inr (Blocks st1)"
    using owner free by (simp add: unfold xy pk)
  then show ?thesis using p1 by blast
qed

lemma switchInput_moves:
  assumes "inGrid (Client.X cl) (Client.Y cl)"
  shows "switchInput ''up'' cl = cl\<lparr>Client.Y := max 0 (Client.Y cl - 1)\<rparr>"
    and "switchInput ''down'' cl = cl\<lparr>Client.Y := min (worldSizeY - 1) (Client.Y cl + 1)\<rparr>"
    and "switchInput ''left'' cl = cl\<lparr>Client.X := max 0 (Client.X cl - 1)\<rparr>"
    and "switchInput ''right'' cl = cl\<lparr>Client.X := min (worldSizeX - 1) (Client.X cl + 1)\<rparr>"
  using assms by (auto simp: switchInput_def inGrid_def max_def min_def worldSizeX_def worldSizeY_def)

text \<open>
  C5 (counterexample): \<^verbatim>\<open>handlePlayer\<close> does not wrap. A client on row 0 that moves up
  stays on row 0, not on the last row 999. And in \<^verbatim>\<open>handlePlayerMovement\<close> the player at
  (0, 0) of a world of three rows who moves up, towards the cell (0, 2) held by a player
  without Pokemon, stays at (0, 0).
\<close>

theorem move_wraparound_counterexample:
  "Client.Y (switchInput ''up'' (newClient\<lparr>Client.X := 5, Client.Y := 0\<rparr>)) = 0
   \<and> worldSizeY - 1 = 999
   \<and> position exampleWorld 1 = Some (0, 0)
   \<and> destination (worldLen exampleWorld) ''up'' (0, 0) = (0, 2)
   \<and> (case handlePlayerMovement 1 ''up'' exampleWorld of
        Inr (Returns st') \<Rightarrow> position st' 1
      | _ \<Rightarrow> None) = Some (0, 0)"
  by (simp add: switchInput_def newClient_def worldSizeY_def handlePlayerMovement_def lock_def
      exampleWorld_def position_def destination_def inWorld_def go_rem_def Let_def)

text \<open>
  C5 (amended): for each of the four directions and every position inside the grid,
  \<^verbatim>\<open>handlePlayerMovement\<close> sets the player's position to the cell one step away with
  wraparound modulo the grid size (moving up from row 0 leads to the last row), unless
  that cell holds a player without Pokemon, in which case the position is unchanged;
  for a player who owns no Pokemon the call returns with that position.
  \<^verbatim>\<open>handlePlayer\<close> moves one cell without wraparound: at an edge the position stays.
\<close>

theorem move_one_cell:
  "(heap st p = Some pl \<and> 0 < worldLen st \<and> inWorld st (Player.X pl) (Player.Y pl)
      \<and> direction \<in> {''up'', ''down'', ''left'', ''right''}
    \<longrightarrow> (\<exists>r. handlePlayerMovement p direction st = Inr r
           \<and> position (stateOf r) p =
               Some (if blockedAt st (destination (worldLen st) direction (Player.X pl, Player.Y pl))
                     then (Player.X pl, Player.Y pl)
                     else destination (worldLen st) direction (Player.X pl, Player.Y pl))
           \<and> (dom (Pokemons pl) = {} \<longrightarrow> r = Returns (stateOf r))))
   \<and> (0 < n \<longrightarrow> destination n ''up'' (x, 0) = (x, n - 1))
   \<and> (inGrid (Client.X cl) (Client.Y cl) \<longrightarrow>
         switchInput ''up'' cl = cl\<lparr>Client.Y := max 0 (Client.Y cl - 1)\<rparr>
       \<and> switchInput ''down'' cl = cl\<lparr>Client.Y := min (worldSizeY - 1) (Client.Y cl + 1)\<rparr>
       \<and> switchInput ''left'' cl = cl\<lparr>Client.X := max 0 (Client.X cl - 1)\<rparr>
       \<and> switchInput ''right'' cl = cl\<lparr>Client.X := min (worldSizeX - 1) (Client.X cl + 1)\<rparr>)"
proof (intro conjI impI)
  assume a: "heap st p = Some pl \<and> 0 < worldLen st \<and> inWorld st (Player.X pl) (Player.Y pl)
      \<and> direction \<in> {''up'', ''down'', ''left'', ''right''}"
  then have h: "heap st p = Some pl" and n: "0 < worldLen st"
    and pos: "inWorld st (Player.X pl) (Player.Y pl)"
    and dir: "direction \<in> {''up'', ''down'', ''left'', ''right''}"
    by blast+
  show "\<exists>r. handlePlayerMovement p direction st = Inr r
           \<and> position (stateOf r) p =
               Some (if blockedAt st (destination (worldLen st) direction (Player.X pl, Player.Y pl))
                     then (Player.X pl, Player.Y pl)
                     else destination (worldLen st) direction (Player.X pl, Player.Y pl))
           \<and> (dom (Pokemons pl) = {} \<longrightarrow> r = Returns (stateOf r))"
    by (rule handlePlayerMovement_position[OF h n pos dir])
next
  assume "0 < n"
  then have "(n - 1) mod n = n - 1"
    by (intro mod_pos_pos_trivial) simp_all
  moreover have "destination n ''up'' (x, 0) = (x, (n - 1) mod n)"
    by (simp add: destination_def)
  ultimately show "destination n ''up'' (x, 0) = (x, n - 1)"
    by (simp only:)
next
  assume g: "inGrid (Client.X cl) (Client.Y cl)"
  show "switchInput ''up'' cl = cl\<lparr>Client.Y := max 0 (Client.Y cl - 1)\<rparr>"
    by (rule switchInput_moves(1)[OF g])
  show "switchInput ''down'' cl = cl\<lparr>Client.Y := min (worldSizeY - 1) (Client.Y cl + 1)\<rparr>"
    by (rule switchInput_moves(2)[OF g])
  show "switchInput ''left'' cl = cl\<lparr>Client.X := max 0 (Client.X cl - 1)\<rparr>"
    by (rule switchInput_moves(3)[OF g])
  show "switchInput ''right'' cl = cl\<lparr>Client.X := min (worldSizeX - 1) (Client.X cl + 1)\<rparr>"
    by (rule switchInput_moves(4)[OF g])
qed

theorem move_one_cell_witness:
  "dom (Pokemons \<lparr>ID = 1, Player.X = 0, Player.Y = 0, Pokemons = Map.empty\<rparr>) = {}
   \<and> (\<exists>st'. handlePlayerMovement 1 ''left'' exampleWorld = Inr (Returns st')
          \<and> position st' 1 = Some (2, 0))
   \<and> (\<exists>st'. handlePlayerMovement 1 ''up'' exampleWorld = Inr (Returns st')
          \<and> position st' 1 = Some (0, 0))
   \<and> destination 3 ''up'' (0, 0) = (0, 2)
   \<and> inGrid 5 999
   \<and> switchInput ''down'' (newClient\<lparr>Client.X := 5, Client.Y := 999\<rparr>)
        = newClient\<lparr>Client.X := 5, Client.Y := 999\<rparr>
   \<and> switchInput ''up'' (newClient\<lparr>Client.X := 5, Client.Y := 999\<rparr>)
        = newClient\<lparr>Client.X := 5, Client.Y := 998\<rparr>"
proof -
  let ?pl = "\<lparr>ID = 1, Player.X = 0, Player.Y = 0, Pokemons = Map.empty\<rparr>"
  let ?cl = "newClient\<lparr>Client.X := 5, Client.Y := 999\<rparr>"
  have none: "dom (Pokemons ?pl) = {}" by simp
  have pre: "heap exampleWorld 1 = Some ?pl" "0 < worldLen exampleWorld"
    "inWorld exampleWorld (Player.X ?pl) (Player.Y ?pl)"
    by (simp_all add: exampleWorld_def inWorld_def)
  have l: "destination (worldLen exampleWorld) ''left'' (Player.X ?pl, Player.Y ?pl) = (2, 0)"
    and u: "destination (worldLen exampleWorld) ''up'' (Player.X ?pl, Player.Y ?pl) = (0, 2)"
    by (simp_all add: destination_def exampleWorld_def)
  have bl: "\<not> blockedAt exampleWorld (2, 0)" and bu: "blockedAt exampleWorld (0, 2)"
    by (simp_all add: blockedAt_def exampleWorld_def)
  have g: "inGrid 5 999" "inGrid (Client.X ?cl) (Client.Y ?cl)"
    by (simp_all add: inGrid_def worldSizeX_def worldSizeY_def newClient_def)
  have dl: "''left'' \<in> {''up'', ''down'', ''left'', ''right''}"
    and du: "''up'' \<in> {''up'', ''down'', ''left'', ''right''}"
    by simp_all
  from move_one_cell [where st = exampleWorld and p = 1 and pl = ?pl and direction = "''left''"]
  have "heap exampleWorld 1 = Some ?pl \<and> 0 < worldLen exampleWorld
      \<and> inWorld exampleWorld (Player.X ?pl) (Player.Y ?pl)
      \<and> ''left'' \<in> {''up'', ''down'', ''left'', ''right''}
    \<longrightarrow> (\<exists>r. handlePlayerMovement 1 ''left'' exampleWorld = Inr r
           \<and> position (stateOf r) 1 =
               Some (if blockedAt exampleWorld
                          (destination (worldLen exampleWorld) ''left'' (Player.X ?pl, Player.Y ?pl))
                     then (Player.X ?pl, Player.Y ?pl)
                     else destination (worldLen exampleWorld) ''left'' (Player.X ?pl, Player.Y ?pl))
           \<and> (dom (Pokemons ?pl) = {} \<longrightarrow> r = Returns (stateOf r)))"
    by (rule conjunct1)
  with pre dl none obtain r where r: "handlePlayerMovement 1 ''left'' exampleWorld = Inr r"
    and rp: "position (stateOf r) 1 =
               Some (if blockedAt exampleWorld
                          (destination (worldLen exampleWorld) ''left'' (Player.X ?pl, Player.Y ?pl))
                     then (Player.X ?pl, Player.Y ?pl)
                     else destination (worldLen exampleWorld) ''left'' (Player.X ?pl, Player.Y ?pl))"
    and rr: "r = Returns (stateOf r)"
    by blast
  from rp have rp': "position (stateOf r) 1 = Some (2, 0)"
    unfolding l using bl by (simp only: if_False)
  from r rr rp' have 1: "\<exists>st'. handlePlayerMovement 1 ''left'' exampleWorld = Inr (Returns st')
          \<and> position st' 1 = Some (2, 0)"
    by metis
  from move_one_cell [where st = exampleWorld and p = 1 and pl = ?pl and direction = "''up''"]
  have "heap exampleWorld 1 = Some ?pl \<and> 0 < worldLen exampleWorld
      \<and> inWorld exampleWorld (Player.X ?pl) (Player.Y ?pl)
      \<and> ''up'' \<in> {''up'', ''down'', ''left'', ''right''}
    \<longrightarrow> (\<exists>r. handlePlayerMovement 1 ''up'' exampleWorld = Inr r
           \<and> position (stateOf r) 1 =
               Some (if blockedAt exampleWorld
                          (destination (worldLen exampleWorld) ''up'' (Player.X ?pl, Player.Y ?pl))
                     then (Player.X ?pl, Player.Y ?pl)
                     else destination (worldLen exampleWorld) ''up'' (Player.X ?pl, Player.Y ?pl))
           \<and> (dom (Pokemons ?pl) = {} \<longrightarrow> r = Returns (stateOf r)))"
    by (rule conjunct1)
  with pre du none obtain q where q: "handlePlayerMovement 1 ''up'' exampleWorld = Inr q"
    and qp: "position (stateOf q) 1 =
               Some (if blockedAt exampleWorld
                          (destination (worldLen exampleWorld) ''up'' (Player.X ?pl, Player.Y ?pl))
                     then (Player.X ?pl, Player.Y ?pl)
                     else destination (worldLen exampleWorld) ''up'' (Player.X ?pl, Player.Y ?pl))"
    and qr: "q = Returns (stateOf q)"
    by blast
  from qp have qp': "position (stateOf q) 1 = Some (0, 0)"
    unfolding u using bu by simp
  from q qr qp' have 2: "\<exists>st'. handlePlayerMovement 1 ''up'' exampleWorld = Inr (Returns st')
          \<and> position st' 1 = Some (0, 0)"
    by metis
  from move_one_cell [where n = 3 and x = 0]
  have 3: "destination 3 ''up'' (0, 0) = (0, 2)" by simp
  from move_one_cell [where cl = ?cl] g(2)
  have 4: "switchInput ''down'' ?cl = ?cl\<lparr>Client.Y := min (worldSizeY - 1) (Client.Y ?cl + 1)\<rparr>"
    and 5: "switchInput ''up'' ?cl = ?cl\<lparr>Client.Y := max 0 (Client.Y ?cl - 1)\<rparr>"
    by blast+
  have d4: "switchInput ''down'' ?cl = ?cl"
    unfolding 4 by (simp add: worldSizeY_def newClient_def)
  have d5: "switchInput ''up'' ?cl = newClient\<lparr>Client.X := 5, Client.Y := 998\<rparr>"
    unfolding 5 by (simp add: newClient_def)
  from none 1 2 3 g(1) d4 d5 show ?thesis by blast
qed

section \<open>Properties of the world grid\<close>

lemma spawnBody_TotalPokemon:
  "spawnBody r pw = Inr pw' \<Longrightarrow> TotalPokemon pw' = TotalPokemon pw"
  by (auto simp: spawnBody_def Let_def split: if_splits)

lemma spawnLoop_TotalPokemon:
  "spawnLoop rnd i k pw = Inr pw' \<Longrightarrow> TotalPokemon pw' = TotalPokemon pw"
proof (induction k arbitrary: i pw)
  case 0
  then show ?case by simp
next
  case (Suc k)
  show ?case
  proof (cases "TotalPokemon pw < 50")
    case False
    with Suc.prems show ?thesis by simp
  next
    case True
    with Suc.prems obtain pw1 where b: "spawnBody (rnd i) pw = Inr pw1"
      and l: "spawnLoop rnd (Suc i) k pw1 = Inr pw'"
      by (auto split: sum.splits)
    from spawnBody_TotalPokemon[OF b] Suc.IH[OF l] show ?thesis by simp
  qed
qed

lemma spawnBody_fresh:
  assumes "pokedex pw \<noteq> []" and "cellOf r \<notin> dom (grid pw)"
  shows "\<exists>pw'. spawnBody r pw = Inr pw' \<and> dom (grid pw') = insert (cellOf r) (dom (grid pw))
           \<and> TotalPokemon pw' = TotalPokemon pw \<and> pokedex pw' \<noteq> []"
  using assms by (auto simp: spawnBody_def cellOf_def Let_def domIff)

lemma spawnLoop_fresh:
  assumes "pokedex pw \<noteq> []" and "TotalPokemon pw < 50"
    and "\<forall>j<k. cellOf (rnd (i + j)) \<notin> dom (grid pw)"
    and "inj_on (\<lambda>j. cellOf (rnd j)) {i..<i + k}"
  shows "\<exists>pw'. spawnLoop rnd i k pw = Inr pw'
           \<and> dom (grid pw') = dom (grid pw) \<union> (\<lambda>j. cellOf (rnd j)) ` {i..<i + k}
           \<and> TotalPokemon pw' = TotalPokemon pw \<and> pokedex pw' \<noteq> []"
  using assms
proof (induction k arbitrary: i pw)
  case 0
  then show ?case by simp
next
  case (Suc k)
  from Suc.prems(3) have fresh0: "cellOf (rnd i) \<notin> dom (grid pw)"
    by (metis add.right_neutral zero_less_Suc)
  from spawnBody_fresh[OF Suc.prems(1) fresh0] obtain pw1 where
    b: "spawnBody (rnd i) pw = Inr pw1"
    and d1: "dom (grid pw1) = insert (cellOf (rnd i)) (dom (grid pw))"
    and t1: "TotalPokemon pw1 = TotalPokemon pw" and p1: "pokedex pw1 \<noteq> []"
    by blast
  have inj: "inj_on (\<lambda>j. cellOf (rnd j)) {Suc i..<Suc i + k}"
    using Suc.prems(4) by (rule inj_on_subset) auto
  have fresh1: "\<forall>j<k. cellOf (rnd (Suc i + j)) \<notin> dom (grid pw1)"
  proof (intro allI impI)
    fix j assume j: "j < k"
    have "cellOf (rnd (i + Suc j)) \<notin> dom (grid pw)"
      using Suc.prems(3) j by (metis Suc_less_eq)
    moreover have "cellOf (rnd (Suc i + j)) \<noteq> cellOf (rnd i)"
    proof
      assume "cellOf (rnd (Suc i + j)) = cellOf (rnd i)"
      with Suc.prems(4) have "Suc i + j = i"
        using j by (auto simp: inj_on_def)
      then show False by simp
    qed
    ultimately show "cellOf (rnd (Suc i + j)) \<notin> dom (grid pw1)"
      by (simp add: d1)
  qed
  from Suc.IH[OF p1 _ fresh1 inj] t1 Suc.prems(2) obtain pw' where
    l: "spawnLoop rnd (Suc i) k pw1 = Inr pw'"
    and d: "dom (grid pw') = dom (grid pw1) \<union> (\<lambda>j. cellOf (rnd j)) ` {Suc i..<Suc i + k}"
    and t: "TotalPokemon pw' = TotalPokemon pw1" and p: "pokedex pw' \<noteq> []"
    by auto
  have "{i..<i + Suc k} = insert i {Suc i..<Suc i + k}" by auto
  then have "dom (grid pw') = dom (grid pw) \<union> (\<lambda>j. cellOf (rnd j)) ` {i..<i + Suc k}"
    using d d1 by auto
  moreover have "spawnLoop rnd i (Suc k) pw = Inr pw'"
    using Suc.prems(2) b l by simp
  ultimately show ?case using t t1 p by auto
qed

lemma cellOf_rowDraws: "i < 1000 \<Longrightarrow> row < 1000 \<Longrightarrow> cellOf (rowDraws row i) = (int i, int row)"
  by (simp add: cellOf_def rowDraws_def worldSizeX_def worldSizeY_def)

lemma row_image: "row < 1000 \<Longrightarrow> (\<lambda>j. cellOf (rowDraws row j)) ` {0..<0 + 50} = (\<lambda>j. (int j, int row)) ` {0..<50}"
  by (rule image_cong) (simp_all add: cellOf_rowDraws)

lemma row_inj: "row < 1000 \<Longrightarrow> inj_on (\<lambda>j. cellOf (rowDraws row j)) {0..<0 + 50}"
  by (rule inj_onI) (simp add: cellOf_rowDraws)

lemma spawnBody_dom:
  "spawnBody r pw = Inr pw' \<Longrightarrow>
     dom (grid pw') = dom (grid pw) \<or> dom (grid pw') = insert (cellOf r) (dom (grid pw))"
  by (auto simp: spawnBody_def cellOf_def Let_def split: if_splits)

lemma spawnBody_card:
  assumes "spawnBody r pw = Inr pw'" and "finite (dom (grid pw))"
  shows "finite (dom (grid pw')) \<and> card (dom (grid pw')) \<le> Suc (card (dom (grid pw)))"
  using spawnBody_dom[OF assms(1)] assms(2)
  by (auto simp: card_insert_if)

lemma spawnLoop_card:
  "spawnLoop rnd i k pw = Inr pw' \<Longrightarrow> finite (dom (grid pw)) \<Longrightarrow>
     finite (dom (grid pw')) \<and> card (dom (grid pw')) \<le> card (dom (grid pw)) + k"
proof (induction k arbitrary: i pw)
  case 0
  then show ?case by simp
next
  case (Suc k)
  show ?case
  proof (cases "TotalPokemon pw < 50")
    case False
    with Suc.prems show ?thesis by simp
  next
    case True
    with Suc.prems obtain pw1 where b: "spawnBody (rnd i) pw = Inr pw1"
      and l: "spawnLoop rnd (Suc i) k pw1 = Inr pw'"
      by (auto split: sum.splits)
    from spawnBody_card[OF b Suc.prems(2)]
    have f1: "finite (dom (grid pw1))" and c1: "card (dom (grid pw1)) \<le> Suc (card (dom (grid pw)))"
      by simp_all
    from Suc.IH[OF l f1] c1 show ?thesis by simp
  qed
qed

lemma spawnPokemon_places_at_most:
  "spawnPokemon numPokemon rnd pw = Inr pw' \<Longrightarrow> finite (dom (grid pw)) \<Longrightarrow>
     card (dom (grid pw')) \<le> card (dom (grid pw)) + nat numPokemon
     \<and> TotalPokemon pw' = TotalPokemon pw"
  unfolding spawnPokemon_def
  using spawnLoop_card spawnLoop_TotalPokemon by blast

lemma fireTimer_stopped:
  "t < length (timers pw) \<Longrightarrow> status (timers pw ! t) \<noteq> Pending \<Longrightarrow> fireTimer t pw = pw"
  by (simp add: fireTimer_def)

lemma despawnCallback_other:
  "grid pw (cx t, cy t) \<noteq> Some (cpokemon t) \<Longrightarrow> despawnCallback t pw = pw"
  by (simp add: despawnCallback_def)


lemma capturePokemon_stops_timer:
  assumes "grid pw (Client.X client, Client.Y client) = Some p"
    and "length (team client) < maxPokemonPerPlayer"
    and "despawnTimers pw p = Some t" and "t < length (timers pw)"
    and "status (timers pw ! t) = Pending"
  shows "status (timers (capturePokemon c client pw) ! t) = Stopped
         \<and> grid (capturePokemon c client pw) (Client.X client, Client.Y client) = None
         \<and> despawnTimers (capturePokemon c client pw) p = None"
  using assms by (simp add: capturePokemon_def stopTimer_def)

text \<open>
  C6 (evaluation of the code at the failing input): \<^verbatim>\<open>spawnPokemon\<close> tests
  \<^verbatim>\<open>pw.TotalPokemon < 50\<close> but never increments the counter (lemma
  \<open>spawnPokemon_places_at_most\<close>: a call places at most \<open>numPokemon\<close> creatures and leaves
  \<^verbatim>\<open>TotalPokemon\<close> as it was). After two spawn cycles on the empty world, 100 creatures
  are on the grid and the counter is still 0.
\<close>

theorem spawn_exceeds_cap:
  "map_sum id (\<lambda>pw. (card (dom (grid pw)), TotalPokemon pw)) twoCycles = Inr (100, 0)"
proof -
  have w0: "pokedex world0 \<noteq> []" "TotalPokemon world0 < 50" "dom (grid world0) = {}" "TotalPokemon world0 = 0"
    by (simp_all add: world0_def)
  from spawnLoop_fresh[of world0 50 "rowDraws 0" 0] w0 row_inj[of 0]
  obtain pw1 where s1: "spawnLoop (rowDraws 0) 0 50 world0 = Inr pw1"
    and d1: "dom (grid pw1) = (\<lambda>j. cellOf (rowDraws 0 j)) ` {0..<0 + 50}"
    and t1: "TotalPokemon pw1 = 0" and p1: "pokedex pw1 \<noteq> []"
    by auto
  have d1': "dom (grid pw1) = (\<lambda>j. (int j, 0)) ` {0..<50}"
    using d1 row_image[of 0] by simp
  have fresh: "\<forall>j<50. cellOf (rowDraws 1 (0 + j)) \<notin> dom (grid pw1)"
    by (auto simp: d1' cellOf_rowDraws)
  from spawnLoop_fresh[OF p1 _ fresh row_inj[of 1]] t1
  obtain pw2 where s2: "spawnLoop (rowDraws 1) 0 50 pw1 = Inr pw2"
    and d2: "dom (grid pw2) = dom (grid pw1) \<union> (\<lambda>j. cellOf (rowDraws 1 j)) ` {0..<0 + 50}"
    and t2: "TotalPokemon pw2 = 0"
    by auto
  have d2': "dom (grid pw2) = (\<lambda>j. (int j, 0)) ` {0..<50} \<union> (\<lambda>j. (int j, 1)) ` {0..<50}"
    using d2 d1' row_image[of 1] by simp
  have "card ((\<lambda>j. (int j, 0::int)) ` {0..<50::nat}) = 50"
    by (subst card_image) (auto simp: inj_on_def)
  moreover have "card ((\<lambda>j. (int j, 1::int)) ` {0..<50::nat}) = 50"
    by (subst card_image) (auto simp: inj_on_def)
  moreover have "(\<lambda>j. (int j, 0::int)) ` {0..<50::nat} \<inter> (\<lambda>j. (int j, 1::int)) ` {0..<50::nat} = {}"
    by auto
  ultimately have c: "card (dom (grid pw2)) = 100"
    unfolding d2' by (subst card_Un_disjoint) simp_all
  have eq: "twoCycles = Inr pw2"
    using s1 s2 by (simp add: twoCycles_def thenDo_def spawnPokemon_def)
  show ?thesis
    unfolding eq by (simp add: c t2)
qed






end
